theory Spec2Isabelle
  imports Complex_Main
begin

section \<open>The tables of the lumber-yard point of sale\<close>

text \<open>
  The schema is the \<^verbatim>\<open>CREATE TABLE\<close> script of the database initialisation. Each table is
  a list of rows in insertion order, with the columns that the sale, cancellation and stock
  removal handlers read or write. Timestamps and the row ids of \<^verbatim>\<open>inventory\<close>,
  \<^verbatim>\<open>sale_items\<close> and \<^verbatim>\<open>inventory_movements\<close> are left out: no handler modelled here
  reads them. The \<^verbatim>\<open>DECIMAL\<close> columns (prices, quantities, amounts) are exact rationals:
  the rounding of JavaScript and SQLite floating point numbers is not modelled. The table
  \<^verbatim>\<open>inventory\<close> has no uniqueness constraint on \<^verbatim>\<open>product_id\<close>, so it is a list of
  rows and not a map.
\<close>

record product =
  p_id :: nat
  p_name :: string
  p_price :: rat
  p_active :: bool

record inventory_row =
  i_product_id :: nat
  i_quantity :: rat

record sale =
  s_id :: nat
  s_customer_id :: "nat option"
  s_user_id :: nat
  s_total_amount :: rat
  s_discount :: rat
  s_tax :: rat
  s_payment_method :: string
  s_status :: string
  s_notes :: string

record sale_item =
  si_sale_id :: nat
  si_product_id :: nat
  si_quantity :: rat
  si_unit_price :: rat
  si_total_price :: rat

record movement =
  m_product_id :: nat
  m_movement_type :: string
  m_quantity :: rat
  m_reason :: string
  m_user_id :: nat
  m_reference_id :: "nat option"
  m_reference_type :: string

text \<open>
  \<open>sales_seq\<close> is the entry of \<^verbatim>\<open>sales\<close> in \<^verbatim>\<open>sqlite_sequence\<close>: the key is
  \<^verbatim>\<open>AUTOINCREMENT\<close>, so a new row gets one more than the largest id the table ever held.
  It is part of the database and is rolled back with it.
\<close>

record tables =
  products :: "product list"
  inventory :: "inventory_row list"
  sales :: "sale list"
  sales_seq :: nat
  sale_items :: "sale_item list"
  inventory_movements :: "movement list"

text \<open>The status column of a new sale: \<^verbatim>\<open>status TEXT DEFAULT 'concluida'\<close>.\<close>

definition sales_status_default :: string where
  "sales_status_default = ''concluida''"

section \<open>SQL statements\<close>

text \<open>The row of the product query of the sale handler: a product joined with its stock.\<close>

record product_row =
  pr_id :: nat
  pr_name :: string
  pr_price :: rat
  pr_stock_quantity :: "rat option"

datatype stmt =
    BeginTransaction
  | Commit
  | Rollback
  | ProductQuery nat
  | InsertSale "nat option" nat rat rat rat string string
  | InsertSaleItem nat nat rat rat rat
  | UpdateInventorySub rat nat
  | UpdateInventoryAdd rat nat
  | InsertMovement nat string rat string nat "nat option" string
  | SelectSale nat
  | SelectSaleItems nat
  | UpdateSaleStatus string nat
  | SelectInventory nat

datatype result =
    Failed
  | Done nat nat
  | ProductRow "product_row option"
  | SaleRow "sale option"
  | ItemRows "sale_item list"
  | InventoryRow "rat option"

text \<open>
  \<^verbatim>\<open>SELECT p.id, p.name, p.price, p.active, i.quantity as stock_quantity FROM products p
  LEFT JOIN inventory i ON p.id = i.product_id WHERE p.id = ? AND p.active = 1\<close>, read with
  \<^verbatim>\<open>db.get\<close>: the first row of the join, whose stock is \<^verbatim>\<open>NULL\<close> when the product has
  no inventory row.
\<close>

definition product_query :: "nat \<Rightarrow> tables \<Rightarrow> product_row option" where
  "product_query pid t =
     (case find (\<lambda>p. p_id p = pid \<and> p_active p) (products t) of
        None \<Rightarrow> None
      | Some p \<Rightarrow>
          Some \<lparr>pr_id = p_id p, pr_name = p_name p, pr_price = p_price p,
                pr_stock_quantity =
                  map_option i_quantity (find (\<lambda>r. i_product_id r = pid) (inventory t))\<rparr>)"

definition next_sale_id :: "tables \<Rightarrow> nat" where
  "next_sale_id t = Suc (foldr max (map s_id (sales t)) (sales_seq t))"

text \<open>
  \<^verbatim>\<open>INSERT INTO sales (customer_id, user_id, total_amount, discount, tax, payment_method,
  notes)\<close>: the status column is not named, so the row takes the default.
\<close>

definition insert_sale ::
  "nat option \<Rightarrow> nat \<Rightarrow> rat \<Rightarrow> rat \<Rightarrow> rat \<Rightarrow> string \<Rightarrow> string \<Rightarrow> tables \<Rightarrow> tables" where
  "insert_sale cid uid amount disc tx pm notes t =
     t\<lparr>sales := sales t @
          [\<lparr>s_id = next_sale_id t, s_customer_id = cid, s_user_id = uid,
            s_total_amount = amount, s_discount = disc, s_tax = tx, s_payment_method = pm,
            s_status = sales_status_default, s_notes = notes\<rparr>],
       sales_seq := next_sale_id t\<rparr>"

definition insert_sale_item :: "nat \<Rightarrow> nat \<Rightarrow> rat \<Rightarrow> rat \<Rightarrow> rat \<Rightarrow> tables \<Rightarrow> tables" where
  "insert_sale_item sid pid q up tp t =
     t\<lparr>sale_items := sale_items t @
          [\<lparr>si_sale_id = sid, si_product_id = pid, si_quantity = q, si_unit_price = up,
            si_total_price = tp\<rparr>]\<rparr>"

text \<open>\<^verbatim>\<open>UPDATE inventory SET quantity = quantity - ? WHERE product_id = ?\<close>: every row of
  the product.\<close>

definition update_inventory_sub :: "rat \<Rightarrow> nat \<Rightarrow> inventory_row list \<Rightarrow> inventory_row list" where
  "update_inventory_sub q pid rows =
     map (\<lambda>r. if i_product_id r = pid then r\<lparr>i_quantity := i_quantity r - q\<rparr> else r) rows"

definition update_inventory_add :: "rat \<Rightarrow> nat \<Rightarrow> inventory_row list \<Rightarrow> inventory_row list" where
  "update_inventory_add q pid rows =
     map (\<lambda>r. if i_product_id r = pid then r\<lparr>i_quantity := i_quantity r + q\<rparr> else r) rows"

definition changed_rows :: "nat \<Rightarrow> inventory_row list \<Rightarrow> nat" where
  "changed_rows pid rows = length (filter (\<lambda>r. i_product_id r = pid) rows)"

definition insert_movement ::
  "nat \<Rightarrow> string \<Rightarrow> rat \<Rightarrow> string \<Rightarrow> nat \<Rightarrow> nat option \<Rightarrow> string \<Rightarrow> tables \<Rightarrow> tables" where
  "insert_movement pid ty q reason uid ref_id ref_ty t =
     t\<lparr>inventory_movements := inventory_movements t @
          [\<lparr>m_product_id = pid, m_movement_type = ty, m_quantity = q, m_reason = reason,
            m_user_id = uid, m_reference_id = ref_id, m_reference_type = ref_ty\<rparr>]\<rparr>"

definition update_sale_status :: "string \<Rightarrow> nat \<Rightarrow> sale list \<Rightarrow> sale list" where
  "update_sale_status st sid rows =
     map (\<lambda>s. if s_id s = sid then s\<lparr>s_status := st\<rparr> else s) rows"

text \<open>A statement that reads or writes rows, run on the tables the connection sees.\<close>

fun exec_data :: "stmt \<Rightarrow> tables \<Rightarrow> result \<times> tables" where
  "exec_data (ProductQuery pid) t = (ProductRow (product_query pid t), t)"
| "exec_data (InsertSale cid uid amount disc tx pm notes) t =
     (Done (next_sale_id t) 1, insert_sale cid uid amount disc tx pm notes t)"
| "exec_data (InsertSaleItem sid pid q up tp) t = (Done 0 1, insert_sale_item sid pid q up tp t)"
| "exec_data (UpdateInventorySub q pid) t =
     (Done 0 (changed_rows pid (inventory t)),
      t\<lparr>inventory := update_inventory_sub q pid (inventory t)\<rparr>)"
| "exec_data (UpdateInventoryAdd q pid) t =
     (Done 0 (changed_rows pid (inventory t)),
      t\<lparr>inventory := update_inventory_add q pid (inventory t)\<rparr>)"
| "exec_data (InsertMovement pid ty q reason uid ref_id ref_ty) t =
     (Done 0 1, insert_movement pid ty q reason uid ref_id ref_ty t)"
| "exec_data (SelectSale sid) t = (SaleRow (find (\<lambda>s. s_id s = sid) (sales t)), t)"
| "exec_data (SelectSaleItems sid) t = (ItemRows (filter (\<lambda>i. si_sale_id i = sid) (sale_items t)), t)"
| "exec_data (UpdateSaleStatus st sid) t =
     (Done 0 (length (filter (\<lambda>s. s_id s = sid) (sales t))),
      t\<lparr>sales := update_sale_status st sid (sales t)\<rparr>)"
| "exec_data (SelectInventory pid) t =
     (InventoryRow (map_option i_quantity (find (\<lambda>r. i_product_id r = pid) (inventory t))), t)"
| "exec_data s t = (Failed, t)"

section \<open>A connection and its transaction\<close>

text \<open>
  Every handler opens its own connection (\<^verbatim>\<open>getDB()\<close>) and never closes it. \<open>committed\<close>
  is what the database file holds, \<open>working\<close> the uncommitted tables of the open
  transaction, if any. Outside a transaction a statement commits on its own.

  Storage failures are an oracle \<open>flt\<close>: the statement \<open>s\<close>, run as the \<open>n\<close>-th statement
  of the connection, fails when \<open>flt n s\<close>, and then changes nothing. The oracle is asked
  for the statements whose error the handlers read in a callback.
  \<^verbatim>\<open>BEGIN TRANSACTION\<close> and \<^verbatim>\<open>ROLLBACK\<close> are run without a callback; they fail only
  when SQLite refuses them (a transaction inside a transaction, a rollback outside one).
\<close>

record connection =
  committed :: tables
  working :: "tables option"

type_synonym fault = "nat \<Rightarrow> stmt \<Rightarrow> bool"

definition no_fault :: fault where
  "no_fault = (\<lambda>n s. False)"

definition view :: "connection \<Rightarrow> tables" where
  "view c = (case working c of None \<Rightarrow> committed c | Some w \<Rightarrow> w)"

definition store :: "tables \<Rightarrow> connection \<Rightarrow> connection" where
  "store t c = (case working c of None \<Rightarrow> c\<lparr>committed := t\<rparr> | Some w \<Rightarrow> c\<lparr>working := Some t\<rparr>)"

fun exec :: "fault \<Rightarrow> nat \<Rightarrow> stmt \<Rightarrow> connection \<Rightarrow> result \<times> connection" where
  "exec flt n BeginTransaction c =
     (case working c of
        None \<Rightarrow> (Done 0 0, c\<lparr>working := Some (committed c)\<rparr>)
      | Some w \<Rightarrow> (Failed, c))"
| "exec flt n Rollback c =
     (case working c of
        None \<Rightarrow> (Failed, c)
      | Some w \<Rightarrow> (Done 0 0, c\<lparr>working := None\<rparr>))"
| "exec flt n Commit c =
     (if flt n Commit then (Failed, c)
      else case working c of
             None \<Rightarrow> (Failed, c)
           | Some w \<Rightarrow> (Done 0 0, \<lparr>committed = w, working = None\<rparr>))"
| "exec flt n s c =
     (if flt n s then (Failed, c)
      else (fst (exec_data s (view c)), store (snd (exec_data s (view c))) c))"

section \<open>The statement queue of a connection\<close>

text \<open>
  The handlers are written with callbacks: a statement is issued together with the function
  to call with its result, and that function issues further statements. The machine keeps
  the statements issued and not yet run, each with the name \<open>'k\<close> of its callback, and the
  variables \<open>'l\<close> that the callbacks of one request share. A step runs the oldest statement
  and then its callback, which appends the statements it issues. Statements therefore run in
  the order in which they were issued. Inside \<^verbatim>\<open>db.serialize\<close> that is the order
  node-sqlite3 guarantees; for the statements issued from callbacks it is one of the orders
  the library may choose.
\<close>

record ('k, 'l) machine =
  queue :: "(stmt \<times> 'k option) list"
  conn :: connection
  locals :: 'l
  clock :: nat

type_synonym ('k, 'l) callbacks =
  "'k \<Rightarrow> result \<Rightarrow> 'l \<Rightarrow> (stmt \<times> 'k option) list \<times> 'l"

definition step ::
  "fault \<Rightarrow> ('k, 'l) callbacks \<Rightarrow> stmt \<times> 'k option \<Rightarrow> ('k, 'l) machine \<Rightarrow> ('k, 'l) machine" where
  "step flt cb task m =
     (let rc = exec flt (clock m) (fst task) (conn m);
          nl = (case snd task of None \<Rightarrow> ([], locals m) | Some k \<Rightarrow> cb k (fst rc) (locals m))
      in \<lparr>queue = tl (queue m) @ fst nl, conn = snd rc, locals = snd nl, clock = Suc (clock m)\<rparr>)"

partial_function (option) run ::
  "fault \<Rightarrow> ('k, 'l) callbacks \<Rightarrow> ('k, 'l) machine \<Rightarrow> ('k, 'l) machine option" where
  "run flt cb m =
     (case queue m of
        [] \<Rightarrow> Some m
      | task # rest \<Rightarrow> run flt cb (step flt cb task m))"

declare run.simps [code]

section \<open>Responses\<close>

text \<open>
  A response is a status code and a body. The bodies are the messages of the handlers, with
  the values they interpolate. A handler may call \<^verbatim>\<open>res.json\<close> from several callbacks; the
  model lists every response a callback sends, in order, and the client receives the first.
\<close>

datatype body =
    ValidationErrors
  | ErroAoValidarProduto
  | ProdutoNaoEncontradoOuInativo nat
  | EstoqueInsuficientePara string "rat option"
  | ErroAoCriarVenda
  | ErroAoInserirItemDaVenda
  | ErroAoAtualizarEstoque
  | ErroAoConfirmarVenda
  | VendaCriadaComSucesso nat rat nat
  | ErroInternoDoServidor
  | VendaNaoEncontrada
  | ErroAoRestaurarEstoque
  | ErroAoAtualizarVenda
  | ErroAoConfirmarAlteracao
  | StatusDaVendaAtualizadoComSucesso
  | ProdutoNaoEncontradoNoEstoque
  | EstoqueInsuficiente rat
  | ErroAoRemoverEstoque
  | ErroAoRegistrarMovimentacao
  | ErroAoConfirmarOperacao
  | EstoqueRemovidoComSucesso

datatype response = Reply nat body

record handler_locals =
  responses :: "response list"

definition send :: "nat \<Rightarrow> body \<Rightarrow> 'a handler_locals_scheme \<Rightarrow> 'a handler_locals_scheme" where
  "send code b l = l\<lparr>responses := responses l @ [Reply code b]\<rparr>"

section \<open>Creating a sale: \<^verbatim>\<open>POST /sales\<close>\<close>

text \<open>
  The body of the request, after \<^verbatim>\<open>const { customer_id, items, discount = 0, tax = 0,
  payment_method, notes } = req.body\<close>: a request without discount or tax has 0 there.
  The user id is the one the authentication middleware puts in \<^verbatim>\<open>req.user\<close>.
\<close>

record sale_line =
  product_id :: nat
  quantity :: rat

record sale_request =
  customer_id :: "nat option"
  items :: "sale_line list"
  discount :: rat
  tax :: rat
  payment_method :: string
  "notes" :: string

text \<open>The validators of the route: at least one item, ids from 1, quantities from 0.001,
  a known payment method.\<close>

definition valid_sale_request :: "sale_request \<Rightarrow> bool" where
  "valid_sale_request req \<longleftrightarrow>
     items req \<noteq> [] \<and>
     list_all (\<lambda>it. 1 \<le> product_id it) (items req) \<and>
     list_all (\<lambda>it. 1 / 1000 \<le> quantity it) (items req) \<and>
     payment_method req \<in> set [''dinheiro'', ''cartao_debito'', ''cartao_credito'', ''pix'', ''boleto'']"

text \<open>An element of \<^verbatim>\<open>saleItems\<close>.\<close>

record sale_draft =
  d_product_id :: nat
  d_quantity :: rat
  d_unit_price :: rat
  d_total_price :: rat

text \<open>The variables shared by the callbacks of one request, and the responses sent.\<close>

record sale_locals = handler_locals +
  totalAmount :: rat
  processedItems :: nat
  saleItems :: "sale_draft list"
  finalTotal :: rat
  saleId :: nat
  insertedItems :: nat

text \<open>
  The callbacks of the handler, in the order of the source: of the product query of a line,
  of the insert of the header (inside \<^verbatim>\<open>createSale\<close>), of the insert of a line item, of
  the decrement of the stock, of the insert of the movement, of the commit. The
  \<^verbatim>\<open>try\<close> block around them catches what is thrown while the statements are issued;
  nothing is.
\<close>

datatype sale_cont =
    OnProduct sale_line
  | OnSaleInserted
  | OnItemInserted sale_draft
  | OnInventoryUpdated sale_draft
  | OnMovementInserted
  | OnCommit

text \<open>JavaScript's \<^verbatim>\<open>product.stock_quantity < item.quantity\<close>: \<^verbatim>\<open>null\<close> compares as 0.\<close>

definition js_less :: "rat option \<Rightarrow> rat \<Rightarrow> bool" where
  "js_less a b = ((case a of None \<Rightarrow> 0 | Some v \<Rightarrow> v) < b)"

definition createSale :: "nat \<Rightarrow> sale_request \<Rightarrow> sale_locals \<Rightarrow> (stmt \<times> sale_cont option) list \<times> sale_locals" where
  "createSale userId req l =
     (let final = totalAmount l - discount req + tax req
      in ([(InsertSale (customer_id req) userId final (discount req) (tax req)
              (payment_method req) (notes req), Some OnSaleInserted)],
          l\<lparr>finalTotal := final\<rparr>))"

fun sale_cb :: "nat \<Rightarrow> sale_request \<Rightarrow> (sale_cont, sale_locals) callbacks" where
  "sale_cb userId req (OnProduct item) r l =
     (case r of
        ProductRow None \<Rightarrow>
          ([(Rollback, None)],
           send 400 (ProdutoNaoEncontradoOuInativo (product_id item)) l)
      | ProductRow (Some product) \<Rightarrow>
          if js_less (pr_stock_quantity product) (quantity item) then
            ([(Rollback, None)],
             send 400 (EstoqueInsuficientePara (pr_name product) (pr_stock_quantity product)) l)
          else
            (let itemTotal = quantity item * pr_price product;
                 l1 = l\<lparr>totalAmount := totalAmount l + itemTotal,
                        saleItems := saleItems l @
                          [\<lparr>d_product_id = product_id item, d_quantity = quantity item,
                            d_unit_price = pr_price product, d_total_price = itemTotal\<rparr>],
                        processedItems := Suc (processedItems l)\<rparr>
             in if processedItems l1 = length (items req) then createSale userId req l1
                else ([], l1))
      | _ \<Rightarrow> ([(Rollback, None)], send 500 ErroAoValidarProduto l))"
| "sale_cb userId req OnSaleInserted r l =
     (case r of
        Done lastID changes \<Rightarrow>
          (map (\<lambda>saleItem.
                  (InsertSaleItem lastID (d_product_id saleItem) (d_quantity saleItem)
                     (d_unit_price saleItem) (d_total_price saleItem),
                   Some (OnItemInserted saleItem)))
             (saleItems l),
           l\<lparr>saleId := lastID, insertedItems := 0\<rparr>)
      | _ \<Rightarrow> ([(Rollback, None)], send 500 ErroAoCriarVenda l))"
| "sale_cb userId req (OnItemInserted saleItem) r l =
     (case r of
        Done lastID changes \<Rightarrow>
          ([(UpdateInventorySub (d_quantity saleItem) (d_product_id saleItem),
             Some (OnInventoryUpdated saleItem))], l)
      | _ \<Rightarrow> ([(Rollback, None)], send 500 ErroAoInserirItemDaVenda l))"
| "sale_cb userId req (OnInventoryUpdated saleItem) r l =
     (case r of
        Done lastID changes \<Rightarrow>
          ([(InsertMovement (d_product_id saleItem) ''saida'' (d_quantity saleItem) ''Venda''
               userId (Some (saleId l)) ''sale'', Some OnMovementInserted)], l)
      | _ \<Rightarrow> ([(Rollback, None)], send 500 ErroAoAtualizarEstoque l))"
| "sale_cb userId req OnMovementInserted r l =
     (let l1 = l\<lparr>insertedItems := Suc (insertedItems l)\<rparr>
      in if insertedItems l1 = length (saleItems l1) then ([(Commit, Some OnCommit)], l1)
         else ([], l1))"
| "sale_cb userId req OnCommit r l =
     (case r of
        Done lastID changes \<Rightarrow>
          ([], send 201 (VendaCriadaComSucesso (saleId l) (finalTotal l) (length (saleItems l))) l)
      | _ \<Rightarrow> ([], send 500 ErroAoConfirmarVenda l))"

definition sale_start :: "sale_request \<Rightarrow> tables \<Rightarrow> (sale_cont, sale_locals) machine" where
  "sale_start req t =
     \<lparr>queue = (BeginTransaction, None) #
               map (\<lambda>item. (ProductQuery (product_id item), Some (OnProduct item))) (items req),
      conn = \<lparr>committed = t, working = None\<rparr>,
      locals = \<lparr>responses = [], totalAmount = 0, processedItems = 0, saleItems = [],
                finalTotal = 0, saleId = 0, insertedItems = 0\<rparr>,
      clock = 0\<rparr>"

text \<open>
  The handler: the responses sent and the tables the database holds once every statement
  and callback of the request has run; \<open>None\<close> if that never happens.
\<close>

definition post_sales ::
  "fault \<Rightarrow> nat \<Rightarrow> sale_request \<Rightarrow> tables \<Rightarrow> (response list \<times> tables) option" where
  "post_sales flt userId req t =
     (if \<not> valid_sale_request req then Some ([Reply 400 ValidationErrors], t)
      else map_option (\<lambda>m. (responses (locals m), committed (conn m)))
             (run flt (sale_cb userId req) (sale_start req t)))"

section \<open>Changing the status of a sale: \<^verbatim>\<open>PUT /sales/:id/status\<close>\<close>

text \<open>
  The handler reads the sale. If it is completed and the request asks to cancel it, a
  transaction restores the stock of each line item, logs a movement for it, sets the status
  and commits; in every other case the status is set by one statement outside a
  transaction.
\<close>

definition valid_status :: "string \<Rightarrow> bool" where
  "valid_status status \<longleftrightarrow> status \<in> set [''pendente'', ''concluida'', ''cancelada'']"

record status_locals = handler_locals +
  cancelItems :: "sale_item list"
  updatedItems :: nat

datatype status_cont =
    OnSale
  | OnItems
  | OnRestored sale_item
  | OnRestoreLogged
  | OnStatusUpdated
  | OnStatusCommit
  | OnPlainUpdate

fun status_cb :: "nat \<Rightarrow> nat \<Rightarrow> string \<Rightarrow> (status_cont, status_locals) callbacks" where
  "status_cb userId sale_id status OnSale r l =
     (case r of
        SaleRow None \<Rightarrow> ([], send 404 VendaNaoEncontrada l)
      | SaleRow (Some sale) \<Rightarrow>
          if s_status sale = ''concluida'' \<and> status = ''cancelada'' then
            ([(BeginTransaction, None), (SelectSaleItems sale_id, Some OnItems)], l)
          else ([(UpdateSaleStatus status sale_id, Some OnPlainUpdate)], l)
      | _ \<Rightarrow> ([], send 500 ErroInternoDoServidor l))"
| "status_cb userId sale_id status OnItems r l =
     (case r of
        ItemRows rows \<Rightarrow>
          (map (\<lambda>item.
                  (UpdateInventoryAdd (si_quantity item) (si_product_id item),
                   Some (OnRestored item)))
             rows,
           l\<lparr>cancelItems := rows, updatedItems := 0\<rparr>)
      | _ \<Rightarrow> ([(Rollback, None)], send 500 ErroInternoDoServidor l))"
| "status_cb userId sale_id status (OnRestored item) r l =
     (case r of
        Done lastID changes \<Rightarrow>
          ([(InsertMovement (si_product_id item) ''entrada'' (si_quantity item)
               ''Cancelamento de venda'' userId (Some sale_id) ''sale_cancellation'',
             Some OnRestoreLogged)], l)
      | _ \<Rightarrow> ([(Rollback, None)], send 500 ErroAoRestaurarEstoque l))"
| "status_cb userId sale_id status OnRestoreLogged r l =
     (let l1 = l\<lparr>updatedItems := Suc (updatedItems l)\<rparr>
      in if updatedItems l1 = length (cancelItems l1)
         then ([(UpdateSaleStatus status sale_id, Some OnStatusUpdated)], l1)
         else ([], l1))"
| "status_cb userId sale_id status OnStatusUpdated r l =
     (case r of
        Done lastID changes \<Rightarrow> ([(Commit, Some OnStatusCommit)], l)
      | _ \<Rightarrow> ([(Rollback, None)], send 500 ErroAoAtualizarVenda l))"
| "status_cb userId sale_id status OnStatusCommit r l =
     (case r of
        Done lastID changes \<Rightarrow> ([], send 200 StatusDaVendaAtualizadoComSucesso l)
      | _ \<Rightarrow> ([], send 500 ErroAoConfirmarAlteracao l))"
| "status_cb userId sale_id status OnPlainUpdate r l =
     (case r of
        Done lastID changes \<Rightarrow> ([], send 200 StatusDaVendaAtualizadoComSucesso l)
      | _ \<Rightarrow> ([], send 500 ErroAoAtualizarVenda l))"

definition status_start :: "nat \<Rightarrow> tables \<Rightarrow> (status_cont, status_locals) machine" where
  "status_start sale_id t =
     \<lparr>queue = [(SelectSale sale_id, Some OnSale)],
      conn = \<lparr>committed = t, working = None\<rparr>,
      locals = \<lparr>responses = [], cancelItems = [], updatedItems = 0\<rparr>,
      clock = 0\<rparr>"

definition put_sale_status ::
  "fault \<Rightarrow> nat \<Rightarrow> nat \<Rightarrow> string \<Rightarrow> tables \<Rightarrow> (response list \<times> tables) option" where
  "put_sale_status flt userId sale_id status t =
     (if \<not> valid_status status then Some ([Reply 400 ValidationErrors], t)
      else map_option (\<lambda>m. (responses (locals m), committed (conn m)))
             (run flt (status_cb userId sale_id status) (status_start sale_id t)))"

section \<open>Removing stock by hand: \<^verbatim>\<open>POST /inventory/product/:id/remove\<close>\<close>

text \<open>
  The handler reads the quantity of the product's inventory row, refuses a removal beyond
  it, and otherwise decrements the stock and logs the movement in a transaction. Here a
  failing insert of the movement is rolled back.
\<close>

datatype remove_cont =
    OnInventory
  | OnRemoved
  | OnRemovalLogged
  | OnRemoveCommit

fun remove_cb :: "nat \<Rightarrow> nat \<Rightarrow> rat \<Rightarrow> string \<Rightarrow> (remove_cont, handler_locals) callbacks" where
  "remove_cb userId productId qty reason OnInventory r l =
     (case r of
        InventoryRow None \<Rightarrow> ([], send 404 ProdutoNaoEncontradoNoEstoque l)
      | InventoryRow (Some current) \<Rightarrow>
          if current < qty then ([], send 400 (EstoqueInsuficiente current) l)
          else ([(BeginTransaction, None),
                 (UpdateInventorySub qty productId, Some OnRemoved)], l)
      | _ \<Rightarrow> ([], send 500 ErroInternoDoServidor l))"
| "remove_cb userId productId qty reason OnRemoved r l =
     (case r of
        Done lastID changes \<Rightarrow>
          ([(InsertMovement productId ''saida'' qty reason userId None ''adjustment'',
             Some OnRemovalLogged)], l)
      | _ \<Rightarrow> ([(Rollback, None)], send 500 ErroAoRemoverEstoque l))"
| "remove_cb userId productId qty reason OnRemovalLogged r l =
     (case r of
        Done lastID changes \<Rightarrow> ([(Commit, Some OnRemoveCommit)], l)
      | _ \<Rightarrow> ([(Rollback, None)], send 500 ErroAoRegistrarMovimentacao l))"
| "remove_cb userId productId qty reason OnRemoveCommit r l =
     (case r of
        Done lastID changes \<Rightarrow> ([], send 200 EstoqueRemovidoComSucesso l)
      | _ \<Rightarrow> ([], send 500 ErroAoConfirmarOperacao l))"

definition valid_adjustment :: "rat \<Rightarrow> string \<Rightarrow> bool" where
  "valid_adjustment qty reason \<longleftrightarrow> 1 / 1000 \<le> qty \<and> reason \<noteq> []"

definition remove_start :: "nat \<Rightarrow> tables \<Rightarrow> (remove_cont, handler_locals) machine" where
  "remove_start productId t =
     \<lparr>queue = [(SelectInventory productId, Some OnInventory)],
      conn = \<lparr>committed = t, working = None\<rparr>,
      locals = \<lparr>responses = []\<rparr>,
      clock = 0\<rparr>"

definition post_inventory_remove ::
  "fault \<Rightarrow> nat \<Rightarrow> nat \<Rightarrow> rat \<Rightarrow> string \<Rightarrow> tables \<Rightarrow> (response list \<times> tables) option" where
  "post_inventory_remove flt userId productId qty reason t =
     (if \<not> valid_adjustment qty reason then Some ([Reply 400 ValidationErrors], t)
      else map_option (\<lambda>m. (responses (locals m), committed (conn m)))
             (run flt (remove_cb userId productId qty reason) (remove_start productId t)))"

section \<open>Rounds of the statement queue\<close>

text \<open>
  \<open>batch\<close> runs a list of statements that stand at the head of the queue, one after the
  other, and collects behind the rest of the queue the statements their callbacks issue.
  It is \<open>step\<close> iterated over these statements; the proofs follow the queue round by round
  with it.
\<close>

fun batch ::
  "fault \<Rightarrow> ('k, 'l) callbacks \<Rightarrow> (stmt \<times> 'k option) list \<Rightarrow>
   (stmt \<times> 'k option) list \<times> connection \<times> 'l \<times> nat \<Rightarrow>
   (stmt \<times> 'k option) list \<times> connection \<times> 'l \<times> nat" where
  "batch flt cb [] acc = acc"
| "batch flt cb (task # ts) (q, c, l, n) =
     (let rc = exec flt n (fst task) c;
          nl = (case snd task of None \<Rightarrow> ([], l) | Some k \<Rightarrow> cb k (fst rc) l)
      in batch flt cb ts (q @ fst nl, snd rc, snd nl, Suc n))"

definition resume ::
  "fault \<Rightarrow> ('k, 'l) callbacks \<Rightarrow> (stmt \<times> 'k option) list \<times> connection \<times> 'l \<times> nat \<Rightarrow>
   ('k, 'l) machine option" where
  "resume flt cb x =
     (case x of (q, c, l, n) \<Rightarrow> run flt cb \<lparr>queue = q, conn = c, locals = l, clock = n\<rparr>)"

section \<open>What the callbacks of a sale do, line by line\<close>

text \<open>
  The checks of the product callback on one line, against the tables \<open>t\<close> the connection
  sees: the error it sends, or the element it pushes on \<^verbatim>\<open>saleItems\<close>. \<open>line_result\<close>
  adds the failure of the query itself.
\<close>

definition line_check :: "tables \<Rightarrow> sale_line \<Rightarrow> response + sale_draft" where
  "line_check t item =
     (case product_query (product_id item) t of
        None \<Rightarrow> Inl (Reply 400 (ProdutoNaoEncontradoOuInativo (product_id item)))
      | Some product \<Rightarrow>
          if js_less (pr_stock_quantity product) (quantity item)
          then Inl (Reply 400 (EstoqueInsuficientePara (pr_name product)
                                 (pr_stock_quantity product)))
          else Inr \<lparr>d_product_id = product_id item, d_quantity = quantity item,
                    d_unit_price = pr_price product,
                    d_total_price = quantity item * pr_price product\<rparr>)"

definition line_result :: "fault \<Rightarrow> nat \<Rightarrow> tables \<Rightarrow> sale_line \<Rightarrow> response + sale_draft" where
  "line_result flt n t item =
     (if flt n (ProductQuery (product_id item)) then Inl (Reply 500 ErroAoValidarProduto)
      else line_check t item)"

fun line_results ::
  "fault \<Rightarrow> nat \<Rightarrow> tables \<Rightarrow> sale_line list \<Rightarrow> (response + sale_draft) list" where
  "line_results flt n t [] = []"
| "line_results flt n t (item # rest) =
     line_result flt n t item # line_results flt (Suc n) t rest"

fun rejected :: "('a + 'b) list \<Rightarrow> 'a list" where
  "rejected [] = []"
| "rejected (Inl e # rs) = e # rejected rs"
| "rejected (Inr d # rs) = rejected rs"

fun accepted :: "('a + 'b) list \<Rightarrow> 'b list" where
  "accepted [] = []"
| "accepted (Inl e # rs) = accepted rs"
| "accepted (Inr d # rs) = d # accepted rs"

text \<open>The statements of a sale, named after what they do, and the rows they write.\<close>

definition select_task :: "sale_line \<Rightarrow> stmt \<times> sale_cont option" where
  "select_task item = (ProductQuery (product_id item), Some (OnProduct item))"

definition item_task :: "nat \<Rightarrow> sale_draft \<Rightarrow> stmt \<times> sale_cont option" where
  "item_task sid d =
     (InsertSaleItem sid (d_product_id d) (d_quantity d) (d_unit_price d) (d_total_price d),
      Some (OnItemInserted d))"

definition stock_task :: "sale_draft \<Rightarrow> stmt \<times> sale_cont option" where
  "stock_task d = (UpdateInventorySub (d_quantity d) (d_product_id d), Some (OnInventoryUpdated d))"

definition movement_stmt :: "nat \<Rightarrow> nat \<Rightarrow> sale_draft \<Rightarrow> stmt" where
  "movement_stmt uid sid d =
     InsertMovement (d_product_id d) ''saida'' (d_quantity d) ''Venda'' uid (Some sid) ''sale''"

definition movement_task :: "nat \<Rightarrow> nat \<Rightarrow> sale_draft \<Rightarrow> stmt \<times> sale_cont option" where
  "movement_task uid sid d = (movement_stmt uid sid d, Some OnMovementInserted)"

definition item_row :: "nat \<Rightarrow> sale_draft \<Rightarrow> sale_item" where
  "item_row sid d =
     \<lparr>si_sale_id = sid, si_product_id = d_product_id d, si_quantity = d_quantity d,
      si_unit_price = d_unit_price d, si_total_price = d_total_price d\<rparr>"

definition movement_row :: "nat \<Rightarrow> nat \<Rightarrow> sale_draft \<Rightarrow> movement" where
  "movement_row uid sid d =
     \<lparr>m_product_id = d_product_id d, m_movement_type = ''saida'', m_quantity = d_quantity d,
      m_reason = ''Venda'', m_user_id = uid, m_reference_id = Some sid,
      m_reference_type = ''sale''\<rparr>"

text \<open>The movements that reach the log when the inserts run from statement \<open>n\<close> on: those
  whose insert does not fail.\<close>

fun logged :: "fault \<Rightarrow> nat \<Rightarrow> nat \<Rightarrow> nat \<Rightarrow> sale_draft list \<Rightarrow> movement list" where
  "logged flt n uid sid [] = []"
| "logged flt n uid sid (d # ds) =
     (if flt n (movement_stmt uid sid d) then [] else [movement_row uid sid d]) @
     logged flt (Suc n) uid sid ds"

text \<open>The stock after the decrements of the lines \<open>ds\<close>, in their order.\<close>

definition sold :: "sale_draft list \<Rightarrow> inventory_row list \<Rightarrow> inventory_row list" where
  "sold ds rows = foldl (\<lambda>rs d. update_inventory_sub (d_quantity d) (d_product_id d) rs) rows ds"

text \<open>An oracle under which only inserts into the movement log fail.\<close>

definition is_movement_insert :: "stmt \<Rightarrow> bool" where
  "is_movement_insert s =
     (case s of InsertMovement pid ty q reason uid rid rty \<Rightarrow> True | _ \<Rightarrow> False)"

definition tolerated :: "fault \<Rightarrow> bool" where
  "tolerated flt \<longleftrightarrow> (\<forall>n s. flt n s \<longrightarrow> is_movement_insert s)"

text \<open>The header row that \<^verbatim>\<open>createSale\<close> inserts for the accepted lines \<open>ds\<close>.\<close>

definition sale_header :: "nat \<Rightarrow> sale_request \<Rightarrow> tables \<Rightarrow> sale_draft list \<Rightarrow> sale" where
  "sale_header uid req t ds =
     \<lparr>s_id = next_sale_id t, s_customer_id = customer_id req, s_user_id = uid,
      s_total_amount = sum_list (map d_total_price ds) - discount req + tax req,
      s_discount = discount req, s_tax = tax req, s_payment_method = payment_method req,
      s_status = sales_status_default, s_notes = notes req\<rparr>"


section \<open>What the callbacks of a cancellation do, item by item\<close>

text \<open>\<^verbatim>\<open>SELECT * FROM sale_items WHERE sale_id = ?\<close>: the line items of a sale.\<close>

definition items_of :: "nat \<Rightarrow> tables \<Rightarrow> sale_item list" where
  "items_of sid t = filter (\<lambda>i. si_sale_id i = sid) (sale_items t)"

definition restore_task :: "sale_item \<Rightarrow> stmt \<times> status_cont option" where
  "restore_task item =
     (UpdateInventoryAdd (si_quantity item) (si_product_id item), Some (OnRestored item))"

definition restore_stmt :: "nat \<Rightarrow> nat \<Rightarrow> sale_item \<Rightarrow> stmt" where
  "restore_stmt uid sid item =
     InsertMovement (si_product_id item) ''entrada'' (si_quantity item)
       ''Cancelamento de venda'' uid (Some sid) ''sale_cancellation''"

definition restore_log_task :: "nat \<Rightarrow> nat \<Rightarrow> sale_item \<Rightarrow> stmt \<times> status_cont option" where
  "restore_log_task uid sid item = (restore_stmt uid sid item, Some OnRestoreLogged)"

definition restore_row :: "nat \<Rightarrow> nat \<Rightarrow> sale_item \<Rightarrow> movement" where
  "restore_row uid sid item =
     \<lparr>m_product_id = si_product_id item, m_movement_type = ''entrada'',
      m_quantity = si_quantity item, m_reason = ''Cancelamento de venda'', m_user_id = uid,
      m_reference_id = Some sid, m_reference_type = ''sale_cancellation''\<rparr>"

fun restore_logged :: "fault \<Rightarrow> nat \<Rightarrow> nat \<Rightarrow> nat \<Rightarrow> sale_item list \<Rightarrow> movement list" where
  "restore_logged flt n uid sid [] = []"
| "restore_logged flt n uid sid (item # rest) =
     (if flt n (restore_stmt uid sid item) then [] else [restore_row uid sid item]) @
     restore_logged flt (Suc n) uid sid rest"

text \<open>The stock after the increments for the line items \<open>rows\<close>, in their order.\<close>

definition restored :: "sale_item list \<Rightarrow> inventory_row list \<Rightarrow> inventory_row list" where
  "restored rows stock =
     foldl (\<lambda>rs item. update_inventory_add (si_quantity item) (si_product_id item) rs) stock rows"

text \<open>A line passes the checks of the product callback: an active product with that id
  exists and its stock is not below the quantity asked.\<close>

definition line_passes :: "tables \<Rightarrow> sale_line \<Rightarrow> bool" where
  "line_passes t item =
     (case product_query (product_id item) t of
        None \<Rightarrow> False
      | Some product \<Rightarrow> \<not> js_less (pr_stock_quantity product) (quantity item))"

text \<open>The error that the product callback sends for a line that does not pass.\<close>

definition line_error :: "tables \<Rightarrow> sale_line \<Rightarrow> response" where
  "line_error t item =
     (case product_query (product_id item) t of
        None \<Rightarrow> Reply 400 (ProdutoNaoEncontradoOuInativo (product_id item))
      | Some product \<Rightarrow>
          Reply 400 (EstoqueInsuficientePara (pr_name product) (pr_stock_quantity product)))"

text \<open>The movement that a removal of stock by hand logs.\<close>

definition removal_row :: "nat \<Rightarrow> nat \<Rightarrow> rat \<Rightarrow> string \<Rightarrow> movement" where
  "removal_row uid pid qty reason =
     \<lparr>m_product_id = pid, m_movement_type = ''saida'', m_quantity = qty, m_reason = reason,
      m_user_id = uid, m_reference_id = None, m_reference_type = ''adjustment''\<rparr>"


text \<open>The insert of the header for the accepted lines \<open>ds\<close>, as \<^verbatim>\<open>createSale\<close> issues it.\<close>

definition header_stmt :: "nat \<Rightarrow> sale_request \<Rightarrow> sale_draft list \<Rightarrow> stmt" where
  "header_stmt uid req ds =
     InsertSale (customer_id req) uid (sum_list (map d_total_price ds) - discount req + tax req)
       (discount req) (tax req) (payment_method req) (notes req)"

section \<open>A sale that can no longer succeed\<close>

text \<open>
  The statements of a sale whose callback leads on towards the commit, the responses that
  are not the 201 of a created sale, and the states in which fewer such statements are left
  than the counter \<^verbatim>\<open>insertedItems\<close> still needs to reach the number of lines. From such
  a state the commit is never issued.
\<close>

fun sale_pending :: "stmt \<times> sale_cont option \<Rightarrow> bool" where
  "sale_pending (s, Some (OnItemInserted d)) = True"
| "sale_pending (s, Some (OnInventoryUpdated d)) = True"
| "sale_pending (s, Some OnMovementInserted) = True"
| "sale_pending (s, k) = False"

definition no_success :: "response list \<Rightarrow> bool" where
  "no_success rs = list_all (\<lambda>r. case r of Reply code b \<Rightarrow> code \<noteq> 201) rs"

definition stalled :: "(sale_cont, sale_locals) machine \<Rightarrow> bool" where
  "stalled m \<longleftrightarrow>
     list_all (\<lambda>task. snd task = None \<or> sale_pending task) (queue m) \<and>
     length (filter sale_pending (queue m)) + insertedItems (locals m)
       < length (saleItems (locals m)) \<and>
     no_success (responses (locals m))"


section \<open>A yard used in the examples\<close>

text \<open>Two of the sample products of the database initialisation, each with 100 in stock,
  and no sale yet.\<close>

definition yard_db :: tables where
  "yard_db =
     \<lparr>products =
        [\<lparr>p_id = 1, p_name = ''Tabua de Pinus'', p_price = 259 / 10, p_active = True\<rparr>,
         \<lparr>p_id = 2, p_name = ''Viga de Eucalipto'', p_price = 899 / 10, p_active = True\<rparr>],
      inventory =
        [\<lparr>i_product_id = 1, i_quantity = 100\<rparr>, \<lparr>i_product_id = 2, i_quantity = 100\<rparr>],
      sales = [], sales_seq = 0, sale_items = [], inventory_movements = []\<rparr>"

text \<open>Thirty boards, paid in cash.\<close>

definition board_request :: sale_request where
  "board_request =
     \<lparr>customer_id = None, items = [\<lparr>product_id = 1, quantity = 30\<rparr>], discount = 0, tax = 0,
      payment_method = ''dinheiro'', notes = []\<rparr>"

text \<open>Two lines for the same product, each within the stock, together beyond it.\<close>

definition oversell_request :: sale_request where
  "oversell_request =
     \<lparr>customer_id = None,
      items = [\<lparr>product_id = 1, quantity = 60\<rparr>, \<lparr>product_id = 1, quantity = 60\<rparr>],
      discount = 0, tax = 0, payment_method = ''pix'', notes = []\<rparr>"

text \<open>An oracle under which every insert into the movement log fails, and nothing else.\<close>

definition movement_log_down :: fault where
  "movement_log_down = (\<lambda>n s. is_movement_insert s)"

text \<open>Three lines: one that passes, one for a product that does not exist, one for more
  beams than the yard has.\<close>

definition ghost_request :: sale_request where
  "ghost_request =
     \<lparr>customer_id = None,
      items = [\<lparr>product_id = 1, quantity = 30\<rparr>, \<lparr>product_id = 9, quantity = 1\<rparr>,
               \<lparr>product_id = 2, quantity = 101\<rparr>],
      discount = 0, tax = 0, payment_method = ''pix'', notes = []\<rparr>"


text \<open>The yard after the thirty boards were sold and the sale was cancelled.\<close>

definition cancelled_db :: tables where
  "cancelled_db =
     yard_db
     \<lparr>sales :=
        [\<lparr>s_id = 1, s_customer_id = None, s_user_id = 1, s_total_amount = 777, s_discount = 0,
          s_tax = 0, s_payment_method = ''dinheiro'', s_status = ''cancelada'', s_notes = []\<rparr>],
      sales_seq := 1,
      sale_items :=
        [\<lparr>si_sale_id = 1, si_product_id = 1, si_quantity = 30, si_unit_price = 259 / 10,
          si_total_price = 777\<rparr>],
      inventory_movements :=
        [\<lparr>m_product_id = 1, m_movement_type = ''saida'', m_quantity = 30, m_reason = ''Venda'',
          m_user_id = 1, m_reference_id = Some 1, m_reference_type = ''sale''\<rparr>,
         \<lparr>m_product_id = 1, m_movement_type = ''entrada'', m_quantity = 30,
          m_reason = ''Cancelamento de venda'', m_user_id = 1, m_reference_id = Some 1,
          m_reference_type = ''sale_cancellation''\<rparr>]\<rparr>"

text \<open>The same tables with the sale set back to completed.\<close>

definition reopened_db :: tables where
  "reopened_db = cancelled_db\<lparr>sales := update_sale_status ''concluida'' 1 (sales cancelled_db)\<rparr>"

text \<open>The yard with a third product that is active and has no inventory row, and a
  request for it.\<close>

definition unstocked_db :: tables where
  "unstocked_db =
     yard_db\<lparr>products := products yard_db @
       [\<lparr>p_id = 3, p_name = ''MDF Cru 15mm'', p_price = 157 / 2, p_active = True\<rparr>]\<rparr>"

definition unstocked_request :: sale_request where
  "unstocked_request =
     \<lparr>customer_id = None, items = [\<lparr>product_id = 3, quantity = 1 / 1000\<rparr>], discount = 0,
      tax = 0, payment_method = ''boleto'', notes = []\<rparr>"

text \<open>An oracle under which the statement number \<open>k\<close> of the connection fails, and nothing
  else.\<close>

definition fails_at :: "nat \<Rightarrow> fault" where
  "fails_at k = (\<lambda>n s. n = k)"

text \<open>The element of \<^verbatim>\<open>saleItems\<close> for the thirty boards.\<close>

definition board_draft :: sale_draft where
  "board_draft =
     \<lparr>d_product_id = 1, d_quantity = 30, d_unit_price = 259 / 10, d_total_price = 777\<rparr>"

text \<open>Thirty boards and ten beams.\<close>

definition two_line_request :: sale_request where
  "two_line_request =
     \<lparr>customer_id = None,
      items = [\<lparr>product_id = 1, quantity = 30\<rparr>, \<lparr>product_id = 2, quantity = 10\<rparr>],
      discount = 0, tax = 0, payment_method = ''pix'', notes = []\<rparr>"

text \<open>The yard after the thirty boards were sold by user 1.\<close>

definition sold_db :: tables where
  "sold_db =
     yard_db
     \<lparr>sales :=
        [\<lparr>s_id = 1, s_customer_id = None, s_user_id = 1, s_total_amount = 777, s_discount = 0,
          s_tax = 0, s_payment_method = ''dinheiro'', s_status = ''concluida'', s_notes = []\<rparr>],
      sales_seq := 1,
      sale_items :=
        [\<lparr>si_sale_id = 1, si_product_id = 1, si_quantity = 30, si_unit_price = 259 / 10,
          si_total_price = 777\<rparr>],
      inventory := [\<lparr>i_product_id = 1, i_quantity = 70\<rparr>, \<lparr>i_product_id = 2, i_quantity = 100\<rparr>],
      inventory_movements :=
        [\<lparr>m_product_id = 1, m_movement_type = ''saida'', m_quantity = 30, m_reason = ''Venda'',
          m_user_id = 1, m_reference_id = Some 1, m_reference_type = ''sale''\<rparr>]\<rparr>"


section \<open>Lemmas on the statement queue\<close>

lemma run_Nil:
  "run flt cb \<lparr>queue = [], conn = c, locals = l, clock = n\<rparr> =
     Some \<lparr>queue = [], conn = c, locals = l, clock = n\<rparr>"
  by (simp add: run.simps)

lemma run_batch:
  "run flt cb \<lparr>queue = ts @ q, conn = c, locals = l, clock = n\<rparr> =
     resume flt cb (batch flt cb ts (q, c, l, n))"
proof (induction ts arbitrary: q c l n)
  case Nil
  show ?case by (simp add: resume_def)
next
  case (Cons task ts)
  have "run flt cb \<lparr>queue = (task # ts) @ q, conn = c, locals = l, clock = n\<rparr>
      = run flt cb (step flt cb task \<lparr>queue = (task # ts) @ q, conn = c, locals = l, clock = n\<rparr>)"
    by (subst run.simps) simp
  also have "\<dots> = resume flt cb (batch flt cb (task # ts) (q, c, l, n))"
    by (cases "snd task") (simp_all add: step_def Let_def Cons.IH)
  finally show ?case .
qed

lemma run_round:
  "run flt cb \<lparr>queue = ts, conn = c, locals = l, clock = n\<rparr> =
     resume flt cb (batch flt cb ts ([], c, l, n))"
  using run_batch [of flt cb ts "[]" c l n] by simp

lemma store_view [simp]: "store (view c) c = c"
  by (cases "working c") (simp_all add: store_def view_def)

lemma exec_Rollback [simp]: "snd (exec flt n Rollback c) = c\<lparr>working := None\<rparr>"
  by (cases "working c") simp_all

lemma tolerated_simps [simp]:
  assumes "tolerated flt"
  shows "\<not> flt n Commit" "\<not> flt n (ProductQuery pid)" "\<not> flt n (InsertSale a b c d e f g)"
    "\<not> flt n (InsertSaleItem sid pid q up tp)" "\<not> flt n (UpdateInventorySub q pid)"
    "\<not> flt n (UpdateInventoryAdd q pid)" "\<not> flt n (SelectSale sid)"
    "\<not> flt n (SelectSaleItems sid)" "\<not> flt n (UpdateSaleStatus st sid)"
    "\<not> flt n (SelectInventory pid)"
  using assms unfolding tolerated_def is_movement_insert_def by force+

section \<open>Lemmas on the rounds of a sale\<close>

lemma batch_BeginTransaction:
  "batch flt cb ((BeginTransaction, None) # ts) (q, \<lparr>committed = t, working = None\<rparr>, l, n) =
     batch flt cb ts (q, \<lparr>committed = t, working = Some t\<rparr>, l, Suc n)"
  by simp

lemma on_product_exec: "snd (exec flt n (ProductQuery pid) c) = c"
  by simp

lemma on_product_rejected:
  "line_result flt n (view c) item = Inl e \<Longrightarrow>
   sale_cb uid req (OnProduct item) (fst (exec flt n (ProductQuery (product_id item)) c)) l =
     ([(Rollback, None)], l\<lparr>responses := responses l @ [e]\<rparr>)"
  by (auto simp: line_result_def line_check_def send_def split: if_splits option.splits)

lemma on_product_accepted:
  "line_result flt n (view c) item = Inr d \<Longrightarrow>
   sale_cb uid req (OnProduct item) (fst (exec flt n (ProductQuery (product_id item)) c)) l =
     (if Suc (processedItems l) = length (items req)
      then createSale uid req
             (l\<lparr>totalAmount := totalAmount l + d_total_price d, saleItems := saleItems l @ [d],
                processedItems := Suc (processedItems l)\<rparr>)
      else ([], l\<lparr>totalAmount := totalAmount l + d_total_price d, saleItems := saleItems l @ [d],
                processedItems := Suc (processedItems l)\<rparr>))"
  by (auto simp: line_result_def line_check_def send_def Let_def split: if_splits option.splits)

text \<open>If fewer lines pass than the request has, \<^verbatim>\<open>createSale\<close> is never called: each
  failing line sends its error and issues a rollback.\<close>

lemma lines_rejected:
  "processedItems l + length (accepted (line_results flt n (view c) its)) < length (items req) \<Longrightarrow>
   batch flt (sale_cb uid req) (map select_task its) (q, c, l, n) =
     (q @ replicate (length (rejected (line_results flt n (view c) its))) (Rollback, None), c,
      l\<lparr>responses := responses l @ rejected (line_results flt n (view c) its),
        totalAmount := totalAmount l +
          sum_list (map d_total_price (accepted (line_results flt n (view c) its))),
        saleItems := saleItems l @ accepted (line_results flt n (view c) its),
        processedItems := processedItems l + length (accepted (line_results flt n (view c) its))\<rparr>,
      n + length its)"
proof (induction its arbitrary: q l n)
  case Nil
  show ?case by simp
next
  case (Cons item its)
  show ?case
  proof (cases "line_result flt n (view c) item")
    case (Inl e)
    then show ?thesis
      using Cons.prems
        Cons.IH [of "l\<lparr>responses := responses l @ [e]\<rparr>" "Suc n" "q @ [(Rollback, None)]"]
      by (simp add: select_task_def on_product_rejected on_product_exec replicate_app_Cons_same
            del: exec.simps sale_cb.simps)
  next
    case (Inr d)
    then show ?thesis
      using Cons.prems
        Cons.IH [of "l\<lparr>totalAmount := totalAmount l + d_total_price d,
                       saleItems := saleItems l @ [d],
                       processedItems := Suc (processedItems l)\<rparr>" "Suc n" q]
      by (simp add: select_task_def on_product_accepted on_product_exec add.assoc
            del: exec.simps sale_cb.simps)
  qed
qed

text \<open>If every line passes, the callback of the last one calls \<^verbatim>\<open>createSale\<close>.\<close>

lemma lines_accepted:
  "its \<noteq> [] \<Longrightarrow> rejected (line_results flt n (view c) its) = [] \<Longrightarrow>
   processedItems l + length its = length (items req) \<Longrightarrow>
   batch flt (sale_cb uid req) (map select_task its) (q, c, l, n) =
     (q @ [(InsertSale (customer_id req) uid
              (totalAmount l +
               sum_list (map d_total_price (accepted (line_results flt n (view c) its)))
                 - discount req + tax req)
              (discount req) (tax req) (payment_method req) (notes req), Some OnSaleInserted)],
      c,
      l\<lparr>totalAmount := totalAmount l +
          sum_list (map d_total_price (accepted (line_results flt n (view c) its))),
        saleItems := saleItems l @ accepted (line_results flt n (view c) its),
        processedItems := length (items req),
        finalTotal := totalAmount l +
          sum_list (map d_total_price (accepted (line_results flt n (view c) its)))
            - discount req + tax req\<rparr>,
      n + length its)"
proof (induction its arbitrary: q l n)
  case Nil
  then show ?case by simp
next
  case (Cons item its)
  from Cons.prems(2) obtain d where d: "line_result flt n (view c) item = Inr d"
    by (cases "line_result flt n (view c) item") simp_all
  show ?case
  proof (cases "its = []")
    case True
    with d Cons.prems show ?thesis
      by (simp add: select_task_def on_product_accepted on_product_exec createSale_def Let_def
            del: exec.simps sale_cb.simps)
  next
    case False
    then have "Suc (processedItems l) \<noteq> length (items req)"
      using Cons.prems(3) by (cases its) auto
    with False d Cons.prems
      Cons.IH [of "Suc n" "l\<lparr>totalAmount := totalAmount l + d_total_price d,
                              saleItems := saleItems l @ [d],
                              processedItems := Suc (processedItems l)\<rparr>" q]
    show ?thesis
      by (simp add: select_task_def on_product_accepted on_product_exec add.assoc
            del: exec.simps sale_cb.simps)
  qed
qed

lemma items_inserted:
  "tolerated flt \<Longrightarrow>
   batch flt (sale_cb uid req) (map (item_task sid) ds)
       (q, \<lparr>committed = t0, working = Some w\<rparr>, l, n) =
     (q @ map stock_task ds,
      \<lparr>committed = t0,
       working = Some (w\<lparr>sale_items := sale_items w @ map (item_row sid) ds\<rparr>)\<rparr>,
      l, n + length ds)"
proof (induction ds arbitrary: q w n)
  case Nil
  show ?case by simp
next
  case (Cons d ds)
  show ?case
    using Cons.prems
      Cons.IH [OF Cons.prems, of "q @ [stock_task d]"
        "insert_sale_item sid (d_product_id d) (d_quantity d) (d_unit_price d) (d_total_price d) w"
        "Suc n"]
    by (simp add: item_task_def stock_task_def item_row_def view_def store_def
          insert_sale_item_def)
qed

lemma stock_updated:
  "tolerated flt \<Longrightarrow>
   batch flt (sale_cb uid req) (map stock_task ds)
       (q, \<lparr>committed = t0, working = Some w\<rparr>, l, n) =
     (q @ map (movement_task uid (saleId l)) ds,
      \<lparr>committed = t0, working = Some (w\<lparr>inventory := sold ds (inventory w)\<rparr>)\<rparr>,
      l, n + length ds)"
proof (induction ds arbitrary: q w n)
  case Nil
  show ?case by (simp add: sold_def)
next
  case (Cons d ds)
  show ?case
    using Cons.prems
      Cons.IH [OF Cons.prems, of "q @ [movement_task uid (saleId l) d]"
        "w\<lparr>inventory := update_inventory_sub (d_quantity d) (d_product_id d) (inventory w)\<rparr>"
        "Suc n"]
    by (simp add: stock_task_def movement_task_def movement_stmt_def view_def store_def sold_def)
qed

text \<open>A failing insert into the movement log is counted like one that worked; the last
  callback issues the commit.\<close>

lemma movements_logged:
  "ds \<noteq> [] \<Longrightarrow> insertedItems l + length ds = length (saleItems l) \<Longrightarrow>
   batch flt (sale_cb uid req) (map (movement_task uid sid) ds)
       (q, \<lparr>committed = t0, working = Some w\<rparr>, l, n) =
     (q @ [(Commit, Some OnCommit)],
      \<lparr>committed = t0,
       working = Some (w\<lparr>inventory_movements :=
                           inventory_movements w @ logged flt n uid sid ds\<rparr>)\<rparr>,
      l\<lparr>insertedItems := length (saleItems l)\<rparr>, n + length ds)"
proof (induction ds arbitrary: q w l n)
  case Nil
  then show ?case by simp
next
  case (Cons d ds)
  show ?case
  proof (cases "ds = []")
    case True
    with Cons.prems show ?thesis
      by (simp add: movement_task_def movement_stmt_def movement_row_def view_def store_def
            insert_movement_def Let_def)
  next
    case False
    then have ne: "Suc (insertedItems l) \<noteq> length (saleItems l)"
      using Cons.prems(2) by (cases ds) auto
    show ?thesis
    proof (cases "flt n (movement_stmt uid sid d)")
      case True
      with False ne Cons.prems
        Cons.IH [of "l\<lparr>insertedItems := Suc (insertedItems l)\<rparr>" q w "Suc n"]
      show ?thesis
        by (simp add: movement_task_def movement_stmt_def)
    next
      case nofault: False
      with False ne Cons.prems
        Cons.IH [of "l\<lparr>insertedItems := Suc (insertedItems l)\<rparr>" q
          "insert_movement (d_product_id d) ''saida'' (d_quantity d) ''Venda'' uid (Some sid)
             ''sale'' w"
          "Suc n"]
      show ?thesis
        by (simp add: movement_task_def movement_stmt_def movement_row_def view_def store_def
              insert_movement_def)
    qed
  qed
qed

lemma rollbacks_run:
  "batch flt cb (replicate (Suc k) (Rollback, None)) (q, c, l, n) =
     (q, c\<lparr>working := None\<rparr>, l, n + Suc k)"
proof (induction k arbitrary: c n)
  case 0
  show ?case by (simp del: exec.simps)
next
  case (Suc k)
  show ?case
    using Suc.IH [of "c\<lparr>working := None\<rparr>" "Suc n"]
    by (simp del: exec.simps)
qed

lemma line_results_tolerated:
  "tolerated flt \<Longrightarrow> line_results flt n t its = map (line_check t) its"
  by (induction its arbitrary: n) (simp_all add: line_result_def)

lemma accepted_map_Inr [simp]: "accepted (map Inr ds) = ds"
  by (induction ds) simp_all

lemma rejected_map_Inr [simp]: "rejected (map Inr ds) = []"
  by (induction ds) simp_all

lemma post_sales_accepts:
  assumes valid: "valid_sale_request req"
    and tol: "tolerated flt"
    and ok: "map (line_check t) (items req) = map Inr ds"
  shows "post_sales flt uid req t =
     Some ([Reply 201 (VendaCriadaComSucesso (next_sale_id t)
                         (sum_list (map d_total_price ds) - discount req + tax req) (length ds))],
           t\<lparr>sales := sales t @ [sale_header uid req t ds],
             sales_seq := next_sale_id t,
             sale_items := sale_items t @ map (item_row (next_sale_id t)) ds,
             inventory := sold ds (inventory t),
             inventory_movements := inventory_movements t @
               logged flt (3 * length ds + 2) uid (next_sale_id t) ds\<rparr>)"
proof -
  let ?cb = "sale_cb uid req"
  let ?sid = "next_sale_id t"
  let ?final = "sum_list (map d_total_price ds) - discount req + tax req"
  have len: "length ds = length (items req)"
    using ok by (metis length_map)
  have ne: "items req \<noteq> []" "ds \<noteq> []"
    using valid len by (auto simp: valid_sale_request_def)
  have res: "line_results flt (Suc 0) t (items req) = map Inr ds"
    using tol ok by (simp add: line_results_tolerated)
  let ?l1 = "\<lparr>responses = [], totalAmount = sum_list (map d_total_price ds), processedItems = length (items req),
      saleItems = ds, finalTotal = ?final, saleId = 0, insertedItems = 0\<rparr>"
  have r0: "run flt ?cb (sale_start req t) =
      run flt ?cb \<lparr>queue = [(InsertSale (customer_id req) uid ?final (discount req) (tax req)
                                (payment_method req) (notes req), Some OnSaleInserted)],
                   conn = \<lparr>committed = t, working = Some t\<rparr>, locals = ?l1,
                   clock = Suc (length (items req))\<rparr>"
    unfolding sale_start_def
    apply (subst run_round)
    apply (subst batch_BeginTransaction)
    apply (fold select_task_def)
    apply (subst lines_accepted)
       apply (simp_all add: ne res view_def resume_def)
    done
  let ?l2 = "?l1\<lparr>saleId := ?sid\<rparr>"
  let ?w2 = "insert_sale (customer_id req) uid ?final (discount req) (tax req)
               (payment_method req) (notes req) t"
  have r1: "run flt ?cb \<lparr>queue = [(InsertSale (customer_id req) uid ?final (discount req) (tax req)
                                (payment_method req) (notes req), Some OnSaleInserted)],
                   conn = \<lparr>committed = t, working = Some t\<rparr>, locals = ?l1,
                   clock = Suc (length (items req))\<rparr> =
      run flt ?cb \<lparr>queue = map (item_task ?sid) ds,
                   conn = \<lparr>committed = t, working = Some ?w2\<rparr>, locals = ?l2,
                   clock = length ds + 2\<rparr>"
    apply (subst run_round)
    apply (simp add: tol resume_def view_def store_def item_task_def [abs_def] len)
    done
  let ?w3 = "?w2\<lparr>sale_items := sale_items ?w2 @ map (item_row ?sid) ds\<rparr>"
  have r2: "run flt ?cb \<lparr>queue = map (item_task ?sid) ds,
                   conn = \<lparr>committed = t, working = Some ?w2\<rparr>, locals = ?l2,
                   clock = length ds + 2\<rparr> =
      run flt ?cb \<lparr>queue = map stock_task ds,
                   conn = \<lparr>committed = t, working = Some ?w3\<rparr>, locals = ?l2,
                   clock = length ds + length ds + 2\<rparr>"
    apply (subst run_round)
    apply (subst items_inserted [OF tol])
    apply (simp add: resume_def)
    done
  let ?w4 = "?w3\<lparr>inventory := sold ds (inventory ?w3)\<rparr>"
  have r3: "run flt ?cb \<lparr>queue = map stock_task ds,
                   conn = \<lparr>committed = t, working = Some ?w3\<rparr>, locals = ?l2,
                   clock = length ds + length ds + 2\<rparr> =
      run flt ?cb \<lparr>queue = map (movement_task uid ?sid) ds,
                   conn = \<lparr>committed = t, working = Some ?w4\<rparr>, locals = ?l2,
                   clock = length ds + length ds + length ds + 2\<rparr>"
    apply (subst run_round)
    apply (subst stock_updated [OF tol])
    apply (simp add: resume_def)
    done
  let ?w5 = "?w4\<lparr>inventory_movements := inventory_movements ?w4 @
               logged flt (length ds + length ds + length ds + 2) uid ?sid ds\<rparr>"
  have r4: "run flt ?cb \<lparr>queue = map (movement_task uid ?sid) ds,
                   conn = \<lparr>committed = t, working = Some ?w4\<rparr>, locals = ?l2,
                   clock = length ds + length ds + length ds + 2\<rparr> =
      run flt ?cb \<lparr>queue = [(Commit, Some OnCommit)],
                   conn = \<lparr>committed = t, working = Some ?w5\<rparr>,
                   locals = ?l2\<lparr>insertedItems := length ds\<rparr>,
                   clock = length ds + length ds + length ds + length ds + 2\<rparr>"
    apply (subst run_round)
    apply (subst movements_logged)
      apply (simp_all add: ne resume_def)
    done
  have r5: "run flt ?cb \<lparr>queue = [(Commit, Some OnCommit)],
                   conn = \<lparr>committed = t, working = Some ?w5\<rparr>,
                   locals = ?l2\<lparr>insertedItems := length ds\<rparr>,
                   clock = length ds + length ds + length ds + length ds + 2\<rparr> =
      Some \<lparr>queue = [], conn = \<lparr>committed = ?w5, working = None\<rparr>,
            locals = ?l2\<lparr>insertedItems := length ds,
                       responses := [Reply 201 (VendaCriadaComSucesso ?sid ?final (length ds))]\<rparr>,
            clock = length ds + length ds + length ds + length ds + 3\<rparr>"
    apply (subst run_round)
    apply (simp add: tol resume_def send_def run_Nil)
    done
  have clk: "3 * length ds + 2 = length ds + length ds + length ds + 2"
    by simp
  show ?thesis
    unfolding post_sales_def
    apply (simp only: valid r0 r1 r2 r3 r4 r5 clk)
    apply (simp add: insert_sale_def sale_header_def)
    done
qed


lemma length_accepted_rejected: "length (accepted rs) + length (rejected rs) = length rs"
  by (induction rs rule: accepted.induct) simp_all

lemma length_line_results [simp]: "length (line_results flt n t its) = length its"
  by (induction its arbitrary: n) simp_all

lemma post_sales_rejects:
  assumes valid: "valid_sale_request req"
    and bad: "rejected (line_results flt 1 t (items req)) \<noteq> []"
  shows "post_sales flt uid req t = Some (rejected (line_results flt 1 t (items req)), t)"
proof -
  let ?cb = "sale_cb uid req"
  let ?rs = "line_results flt (Suc 0) t (items req)"
  from bad obtain k where k: "length (rejected ?rs) = Suc k"
    by (cases "rejected ?rs") simp_all
  have less: "length (accepted ?rs) < length (items req)"
    using length_accepted_rejected [of ?rs] k by simp
  let ?l1 = "\<lparr>responses = rejected ?rs,
              totalAmount = sum_list (map d_total_price (accepted ?rs)),
              processedItems = length (accepted ?rs), saleItems = accepted ?rs,
              finalTotal = 0, saleId = 0, insertedItems = 0\<rparr>"
  have r0: "run flt ?cb (sale_start req t) =
      run flt ?cb \<lparr>queue = replicate (Suc k) (Rollback, None),
                   conn = \<lparr>committed = t, working = Some t\<rparr>, locals = ?l1,
                   clock = Suc (length (items req))\<rparr>"
    unfolding sale_start_def
    apply (subst run_round)
    apply (subst batch_BeginTransaction)
    apply (fold select_task_def)
    apply (subst lines_rejected)
     apply (simp add: less view_def)
    apply (simp only: view_def resume_def k connection.simps option.simps prod.case append_Nil)
    apply simp
    done
  have r1: "run flt ?cb \<lparr>queue = replicate (Suc k) (Rollback, None),
                   conn = \<lparr>committed = t, working = Some t\<rparr>, locals = ?l1,
                   clock = Suc (length (items req))\<rparr> =
      Some \<lparr>queue = [], conn = \<lparr>committed = t, working = None\<rparr>, locals = ?l1,
            clock = Suc (length (items req)) + Suc k\<rparr>"
    apply (subst run_round)
    apply (subst rollbacks_run)
    apply (simp add: resume_def run_Nil)
    done
  have "run flt ?cb (sale_start req t) =
      Some \<lparr>queue = [], conn = \<lparr>committed = t, working = None\<rparr>, locals = ?l1,
            clock = Suc (length (items req)) + Suc k\<rparr>"
    by (simp only: r0 r1)
  then show ?thesis
    by (simp add: post_sales_def valid)
qed


section \<open>Lemmas on the rounds of a cancellation\<close>

lemma stock_restored:
  "tolerated flt \<Longrightarrow>
   batch flt (status_cb uid sid st) (map restore_task rows)
       (q, \<lparr>committed = t0, working = Some w\<rparr>, l, n) =
     (q @ map (restore_log_task uid sid) rows,
      \<lparr>committed = t0, working = Some (w\<lparr>inventory := restored rows (inventory w)\<rparr>)\<rparr>,
      l, n + length rows)"
proof (induction rows arbitrary: q w n)
  case Nil
  show ?case by (simp add: restored_def)
next
  case (Cons item rows)
  show ?case
    using Cons.prems
      Cons.IH [OF Cons.prems, of "q @ [restore_log_task uid sid item]"
        "w\<lparr>inventory := update_inventory_add (si_quantity item) (si_product_id item) (inventory w)\<rparr>"
        "Suc n"]
    by (simp add: restore_task_def restore_log_task_def restore_stmt_def view_def store_def
          restored_def)
qed

lemma restores_logged:
  "rows \<noteq> [] \<Longrightarrow> updatedItems l + length rows = length (cancelItems l) \<Longrightarrow>
   batch flt (status_cb uid sid st) (map (restore_log_task uid sid) rows)
       (q, \<lparr>committed = t0, working = Some w\<rparr>, l, n) =
     (q @ [(UpdateSaleStatus st sid, Some OnStatusUpdated)],
      \<lparr>committed = t0,
       working = Some (w\<lparr>inventory_movements :=
                           inventory_movements w @ restore_logged flt n uid sid rows\<rparr>)\<rparr>,
      l\<lparr>updatedItems := length (cancelItems l)\<rparr>, n + length rows)"
proof (induction rows arbitrary: q w l n)
  case Nil
  then show ?case by simp
next
  case (Cons item rows)
  show ?case
  proof (cases "rows = []")
    case True
    with Cons.prems show ?thesis
      by (simp add: restore_log_task_def restore_stmt_def restore_row_def view_def store_def
            insert_movement_def Let_def)
  next
    case False
    then have ne: "Suc (updatedItems l) \<noteq> length (cancelItems l)"
      using Cons.prems(2) by (cases rows) auto
    show ?thesis
    proof (cases "flt n (restore_stmt uid sid item)")
      case True
      with False ne Cons.prems
        Cons.IH [of "l\<lparr>updatedItems := Suc (updatedItems l)\<rparr>" q w "Suc n"]
      show ?thesis
        by (simp add: restore_log_task_def restore_stmt_def)
    next
      case nofault: False
      with False ne Cons.prems
        Cons.IH [of "l\<lparr>updatedItems := Suc (updatedItems l)\<rparr>" q
          "insert_movement (si_product_id item) ''entrada'' (si_quantity item)
             ''Cancelamento de venda'' uid (Some sid) ''sale_cancellation'' w"
          "Suc n"]
      show ?thesis
        by (simp add: restore_log_task_def restore_stmt_def restore_row_def view_def store_def
              insert_movement_def)
    qed
  qed
qed

lemma put_sale_status_cancels:
  assumes tol: "tolerated flt"
    and found: "find (\<lambda>s. s_id s = sid) (sales t) = Some sale"
    and completed: "s_status sale = ''concluida''"
    and ne: "items_of sid t \<noteq> []"
  shows "put_sale_status flt uid sid ''cancelada'' t =
     Some ([Reply 200 StatusDaVendaAtualizadoComSucesso],
           t\<lparr>inventory := restored (items_of sid t) (inventory t),
             inventory_movements := inventory_movements t @
               restore_logged flt (length (items_of sid t) + 3) uid sid (items_of sid t),
             sales := update_sale_status ''cancelada'' sid (sales t)\<rparr>)"
proof -
  let ?cb = "status_cb uid sid ''cancelada''"
  let ?rows = "items_of sid t"
  let ?l1 = "\<lparr>responses = [], cancelItems = ?rows, updatedItems = 0\<rparr>"
  have r0: "run flt ?cb (status_start sid t) =
      run flt ?cb \<lparr>queue = map restore_task ?rows,
                   conn = \<lparr>committed = t, working = Some t\<rparr>, locals = ?l1, clock = 3\<rparr>"
    unfolding status_start_def
    apply (subst run_round)
    apply (simp add: tol found completed resume_def view_def store_def)
    apply (subst run_round)
    apply (simp add: tol resume_def view_def store_def items_of_def restore_task_def [abs_def] numeral_3_eq_3)
    done
  let ?w2 = "t\<lparr>inventory := restored ?rows (inventory t)\<rparr>"
  have r1: "run flt ?cb \<lparr>queue = map restore_task ?rows,
                   conn = \<lparr>committed = t, working = Some t\<rparr>, locals = ?l1, clock = 3\<rparr> =
      run flt ?cb \<lparr>queue = map (restore_log_task uid sid) ?rows,
                   conn = \<lparr>committed = t, working = Some ?w2\<rparr>, locals = ?l1,
                   clock = length ?rows + 3\<rparr>"
    apply (subst run_round)
    apply (subst stock_restored [OF tol])
    apply (simp add: resume_def ac_simps)
    done
  let ?w3 = "?w2\<lparr>inventory_movements := inventory_movements ?w2 @
               restore_logged flt (length ?rows + 3) uid sid ?rows\<rparr>"
  have r2: "run flt ?cb \<lparr>queue = map (restore_log_task uid sid) ?rows,
                   conn = \<lparr>committed = t, working = Some ?w2\<rparr>, locals = ?l1,
                   clock = length ?rows + 3\<rparr> =
      run flt ?cb \<lparr>queue = [(UpdateSaleStatus ''cancelada'' sid, Some OnStatusUpdated)],
                   conn = \<lparr>committed = t, working = Some ?w3\<rparr>,
                   locals = ?l1\<lparr>updatedItems := length ?rows\<rparr>,
                   clock = length ?rows + length ?rows + 3\<rparr>"
    apply (subst run_round)
    apply (subst restores_logged)
      apply (simp_all add: ne resume_def ac_simps)
    done
  have r3: "run flt ?cb \<lparr>queue = [(UpdateSaleStatus ''cancelada'' sid, Some OnStatusUpdated)],
                   conn = \<lparr>committed = t, working = Some ?w3\<rparr>,
                   locals = ?l1\<lparr>updatedItems := length ?rows\<rparr>,
                   clock = length ?rows + length ?rows + 3\<rparr> =
      Some \<lparr>queue = [],
            conn = \<lparr>committed = ?w3\<lparr>sales := update_sale_status ''cancelada'' sid (sales t)\<rparr>,
                    working = None\<rparr>,
            locals = ?l1\<lparr>updatedItems := length ?rows,
                       responses := [Reply 200 StatusDaVendaAtualizadoComSucesso]\<rparr>,
            clock = length ?rows + length ?rows + 5\<rparr>"
    apply (subst run_round)
    apply (simp add: tol resume_def view_def store_def)
    apply (subst run_round)
    apply (simp add: tol resume_def send_def run_Nil ac_simps)
    done
  show ?thesis
    unfolding put_sale_status_def
    apply (simp only: r0 r1 r2 r3)
    apply (simp add: valid_status_def)
    done
qed


section \<open>Lemmas on the rows of a sale\<close>

lemma tolerated_no_fault [simp]: "tolerated no_fault"
  by (simp add: tolerated_def no_fault_def)

lemma logged_no_fault [simp]: "logged no_fault n uid sid ds = map (movement_row uid sid) ds"
  by (induction ds arbitrary: n) (simp_all add: no_fault_def)

lemma restore_logged_no_fault [simp]:
  "restore_logged no_fault n uid sid rows = map (restore_row uid sid) rows"
  by (induction rows arbitrary: n) (simp_all add: no_fault_def)

lemma line_passes_check:
  "line_passes t item \<longleftrightarrow> (\<exists>d. line_check t item = Inr d)"
  by (auto simp: line_passes_def line_check_def split: option.splits)

lemma sale_ids_below_next: "s \<in> set (sales t) \<Longrightarrow> s_id s < next_sale_id t"
proof -
  have "x \<in> set xs \<Longrightarrow> x \<le> foldr max xs (b::nat)" for x xs b
    by (induction xs) auto
  from this [of "s_id s" "map s_id (sales t)" "sales_seq t"]
  show "s \<in> set (sales t) \<Longrightarrow> s_id s < next_sale_id t"
    by (auto simp: next_sale_id_def)
qed

lemma find_in_append:
  "find P (xs @ ys) = (case find P xs of None \<Rightarrow> find P ys | Some x \<Rightarrow> Some x)"
  by (induction xs) simp_all

lemma find_new_sale:
  "s_id h = next_sale_id t \<Longrightarrow> find (\<lambda>s. s_id s = next_sale_id t) (sales t @ [h]) = Some h"
proof -
  assume h: "s_id h = next_sale_id t"
  have "find (\<lambda>s. s_id s = next_sale_id t) (sales t) = None"
    using sale_ids_below_next [of _ t] by (fastforce simp: find_None_iff)
  then show ?thesis
    using h by (simp add: find_in_append)
qed











lemma new_items_not_empty:
  "ds \<noteq> [] \<Longrightarrow> filter (\<lambda>i. si_sale_id i = sid) (old @ map (item_row sid) ds) \<noteq> []"
  by (cases ds) (simp_all add: item_row_def)


lemma line_results_checks:
  "\<forall>n pid. \<not> flt n (ProductQuery pid) \<Longrightarrow> line_results flt n t its = map (line_check t) its"
  by (induction its arbitrary: n) (simp_all add: line_result_def)

lemma rejected_checks:
  "rejected (map (line_check t) its) = map (line_error t) (filter (\<lambda>i. \<not> line_passes t i) its)"
  by (induction its)
    (auto simp: line_check_def line_error_def line_passes_def split: option.splits)

lemma rejected_line_results:
  "r \<in> set (rejected (line_results flt n t its)) \<Longrightarrow>
   (\<exists>b. r = Reply 400 b) \<or> r = Reply 500 ErroAoValidarProduto"
proof (induction its arbitrary: n)
  case Nil
  then show ?case by simp
next
  case (Cons item its)
  then show ?case
    by (cases "line_result flt n t item")
      (auto simp: line_result_def line_check_def split: if_splits option.splits)
qed

lemma failing_line_rejected:
  "item \<in> set its \<Longrightarrow> \<not> line_passes t item \<Longrightarrow> rejected (line_results flt n t its) \<noteq> []"
proof (induction its arbitrary: n)
  case Nil
  then show ?case by simp
next
  case (Cons i its)
  show ?case
  proof (cases "line_result flt n t i")
    case (Inl e)
    then show ?thesis by simp
  next
    case (Inr d)
    then have "line_passes t i"
      by (auto simp: line_result_def line_passes_check split: if_splits)
    with Cons.prems have "item \<in> set its" by auto
    with Cons.IH Cons.prems(2) Inr show ?thesis by simp
  qed
qed


section \<open>Lemmas on the plain status update and on the removal of stock\<close>

lemma on_sale_plain:
  "\<not> (s_status sale = ''concluida'' \<and> st = ''cancelada'') \<Longrightarrow>
   status_cb uid sid st OnSale (SaleRow (Some sale)) l =
     ([(UpdateSaleStatus st sid, Some OnPlainUpdate)], l)"
  by auto

lemma on_sale_failed:
  "status_cb uid sid st OnSale Failed l = ([], send 500 ErroInternoDoServidor l)"
  by simp

lemma put_sale_status_plain:
  assumes "valid_status st"
    and "find (\<lambda>s. s_id s = sid) (sales t) = Some sale"
    and "\<not> (s_status sale = ''concluida'' \<and> st = ''cancelada'')"
  shows "put_sale_status flt uid sid st t =
     Some (if flt 0 (SelectSale sid) then ([Reply 500 ErroInternoDoServidor], t)
           else if flt 1 (UpdateSaleStatus st sid) then ([Reply 500 ErroAoAtualizarVenda], t)
           else ([Reply 200 StatusDaVendaAtualizadoComSucesso],
                 t\<lparr>sales := update_sale_status st sid (sales t)\<rparr>))"
  using assms(1,2) on_sale_plain [OF assms(3)]
  by (simp add: put_sale_status_def status_start_def run.simps step_def view_def store_def
        send_def on_sale_failed del: status_cb.simps(1))

lemma post_inventory_remove_result:
  assumes "valid_adjustment qty reason"
  shows "post_inventory_remove flt uid pid qty reason t =
     Some (if flt 0 (SelectInventory pid) then ([Reply 500 ErroInternoDoServidor], t)
           else case find (\<lambda>r. i_product_id r = pid) (inventory t) of
             None \<Rightarrow> ([Reply 404 ProdutoNaoEncontradoNoEstoque], t)
           | Some row \<Rightarrow>
               if i_quantity row < qty then ([Reply 400 (EstoqueInsuficiente (i_quantity row))], t)
               else if flt 2 (UpdateInventorySub qty pid)
                 then ([Reply 500 ErroAoRemoverEstoque], t)
               else if flt 3 (InsertMovement pid ''saida'' qty reason uid None ''adjustment'')
                 then ([Reply 500 ErroAoRegistrarMovimentacao], t)
               else if flt 4 Commit then ([Reply 500 ErroAoConfirmarOperacao], t)
               else ([Reply 200 EstoqueRemovidoComSucesso],
                     t\<lparr>inventory := update_inventory_sub qty pid (inventory t),
                       inventory_movements := inventory_movements t @
                         [\<lparr>m_product_id = pid, m_movement_type = ''saida'', m_quantity = qty,
                           m_reason = reason, m_user_id = uid, m_reference_id = None,
                           m_reference_type = ''adjustment''\<rparr>]\<rparr>))"
  using assms
  by (simp add: post_inventory_remove_def remove_start_def run.simps step_def view_def store_def
        send_def insert_movement_def numeral_2_eq_2 numeral_3_eq_3 eval_nat_numeral
        split: option.splits)


lemma find_updated_sale:
  "find (\<lambda>s. s_id s = sid) rows = Some sale \<Longrightarrow>
   find (\<lambda>s. s_id s = sid) (update_sale_status st sid rows) = Some (sale\<lparr>s_status := st\<rparr>)"
  by (induction rows) (auto simp: update_sale_status_def)


lemma find_decremented_row:
  "find (\<lambda>r. i_product_id r = pid) rows = Some row \<Longrightarrow>
   find (\<lambda>r. i_product_id r = pid) (update_inventory_sub qty pid rows) =
     Some (row\<lparr>i_quantity := i_quantity row - qty\<rparr>)"
  by (induction rows) (auto simp: update_inventory_sub_def)


section \<open>Lemmas on the failures of a sale\<close>

lemma sale_lines_pass:
  assumes ne: "items req \<noteq> []"
    and res: "line_results flt (Suc 0) t (items req) = map Inr ds"
  shows "run flt (sale_cb uid req) (sale_start req t) =
      run flt (sale_cb uid req)
        \<lparr>queue = [(header_stmt uid req ds, Some OnSaleInserted)],
         conn = \<lparr>committed = t, working = Some t\<rparr>,
         locals = \<lparr>responses = [], totalAmount = sum_list (map d_total_price ds),
                   processedItems = length (items req), saleItems = ds,
                   finalTotal = sum_list (map d_total_price ds) - discount req + tax req,
                   saleId = 0, insertedItems = 0\<rparr>,
         clock = Suc (length (items req))\<rparr>"
  unfolding sale_start_def header_stmt_def
  apply (subst run_round)
  apply (subst batch_BeginTransaction)
  apply (fold select_task_def)
  apply (subst lines_accepted)
     apply (simp_all add: ne res view_def resume_def)
  done

lemma header_insert_fails:
  assumes valid: "valid_sale_request req"
    and res: "line_results flt (Suc 0) t (items req) = map Inr ds"
    and fails: "flt (Suc (length ds)) (header_stmt uid req ds)"
  shows "post_sales flt uid req t = Some ([Reply 500 ErroAoCriarVenda], t)"
proof -
  have ne: "items req \<noteq> []"
    using valid by (simp add: valid_sale_request_def)
  have len: "length ds = length (items req)"
    using res by (metis length_map length_line_results)
  show ?thesis
    unfolding post_sales_def
    apply (simp only: valid sale_lines_pass [OF ne res])
    apply (subst run_round)
    using fails
    apply (simp add: header_stmt_def len resume_def send_def)
    apply (subst run_round)
    apply (simp add: resume_def run_Nil)
    done
qed

lemma single_line_fails:
  assumes valid: "valid_sale_request req"
    and one: "items req = [item]"
    and res: "line_result flt (Suc 0) t item = Inr d"
    and header: "\<not> flt 2 (header_stmt uid req [d])"
    and fails: "flt 3 (fst (item_task (next_sale_id t) d)) \<or>
                \<not> flt 3 (fst (item_task (next_sale_id t) d)) \<and> flt 4 (fst (stock_task d))"
  shows "post_sales flt uid req t =
     Some ([Reply 500 (if flt 3 (fst (item_task (next_sale_id t) d))
                       then ErroAoInserirItemDaVenda else ErroAoAtualizarEstoque)], t)"
proof -
  have ne: "items req \<noteq> []"
    using one by simp
  have res': "line_results flt (Suc 0) t (items req) = map Inr [d]"
    using one res by simp
  show ?thesis
    unfolding post_sales_def
    apply (simp only: valid sale_lines_pass [OF ne res'])
    apply (subst run_round)
    using header fails
    apply (simp add: header_stmt_def one resume_def send_def numeral_2_eq_2 view_def store_def)
    apply (subst run_round)
    apply (simp add: resume_def send_def item_task_def stock_task_def numeral_3_eq_3 view_def
        store_def eval_nat_numeral)
    apply (auto simp: run.simps step_def view_def store_def send_def)
    done
qed


section \<open>Lemmas on sales that can no longer succeed\<close>

lemma run_invariant:
  assumes run: "run flt cb m = Some m'"
    and step: "\<And>m task rest. I m \<Longrightarrow> queue m = task # rest \<Longrightarrow> I (step flt cb task m)"
    and init: "I m"
  shows "I m'"
proof -
  let ?P = "\<lambda>flt cb m y. (\<forall>m task rest. I m \<longrightarrow> queue m = task # rest \<longrightarrow>
      I (step flt cb task m)) \<longrightarrow> I m \<longrightarrow> I y"
  have "?P flt cb m m'"
  proof (rule run.raw_induct [where P = ?P, OF _ run])
    fix run flt cb m y
    assume ih: "\<And>flt cb m y. run flt cb m = Some y \<Longrightarrow> ?P flt cb m y"
      and unfolded: "(case queue m of [] \<Rightarrow> Some m
                      | task # rest \<Rightarrow> run flt cb (step flt cb task m)) = Some y"
    show "?P flt cb m y"
    proof (cases "queue m")
      case Nil
      with unfolded show ?thesis by simp
    next
      case (Cons task rest)
      with unfolded have "run flt cb (step flt cb task m) = Some y" by simp
      from ih [OF this] Cons show ?thesis by blast
    qed
  qed
  with step init show ?thesis by blast
qed

lemma stalled_step:
  assumes "stalled m" and "queue m = task # rest"
  shows "stalled (step flt (sale_cb uid req) task m)"
proof (cases task)
  case (Pair s k)
  show ?thesis
  proof (cases k)
    case None
    with assms Pair show ?thesis
      by (simp add: stalled_def step_def)
  next
    case (Some c)
    with assms Pair show ?thesis
      by (cases c; cases "fst (exec flt (clock m) s (conn m))")
        (simp_all add: stalled_def step_def send_def no_success_def Let_def del: exec.simps)
  qed
qed

lemma stalled_run:
  assumes "run flt (sale_cb uid req) m = Some m'" and "stalled m"
  shows "no_success (responses (locals m'))"
proof -
  have "stalled m'"
    using assms(1) stalled_step assms(2) by (rule run_invariant)
  then show ?thesis
    by (simp add: stalled_def)
qed


lemma task_simps:
  "fst (item_task sid d) =
     InsertSaleItem sid (d_product_id d) (d_quantity d) (d_unit_price d) (d_total_price d)"
  "snd (item_task sid d) = Some (OnItemInserted d)"
  "fst (stock_task d) = UpdateInventorySub (d_quantity d) (d_product_id d)"
  "snd (stock_task d) = Some (OnInventoryUpdated d)"
  "fst (movement_task uid sid d) = movement_stmt uid sid d"
  "snd (movement_task uid sid d) = Some OnMovementInserted"
  "sale_pending (item_task sid d)"
  "sale_pending (stock_task d)"
  "sale_pending (movement_task uid sid d)"
  by (simp_all add: item_task_def stock_task_def movement_task_def)

lemma items_round:
  "\<exists>new w' errs.
     batch flt (sale_cb uid req) (map (item_task sid) ds)
         (q, \<lparr>committed = t0, working = Some w\<rparr>, l, n) =
       (q @ new, \<lparr>committed = t0, working = Some w'\<rparr>,
        l\<lparr>responses := responses l @ errs\<rparr>, n + length ds) \<and>
     list_all (\<lambda>task. snd task = None \<or> sale_pending task) new \<and>
     length (filter sale_pending new) \<le> length ds \<and>
     no_success errs \<and>
     (length (filter sale_pending new) = length ds \<longrightarrow>
        new = map stock_task ds \<and> errs = [] \<and>
        w' = w\<lparr>sale_items := sale_items w @ map (item_row sid) ds\<rparr>)"
proof (induction ds arbitrary: q w l n)
  case Nil
  show ?case
    by (rule exI [of _ "[]"], rule exI [of _ w], rule exI [of _ "[]"]) (simp add: no_success_def)
next
  case (Cons d ds)
  show ?case
  proof (cases "flt n (fst (item_task sid d))")
    case True
    from Cons.IH [of "q @ [(Rollback, None)]" w
        "l\<lparr>responses := responses l @ [Reply 500 ErroAoInserirItemDaVenda]\<rparr>" "Suc n"]
    obtain new w' errs where ih:
      "batch flt (sale_cb uid req) (map (item_task sid) ds)
         (q @ [(Rollback, None)], \<lparr>committed = t0, working = Some w\<rparr>,
          l\<lparr>responses := responses l @ [Reply 500 ErroAoInserirItemDaVenda]\<rparr>, Suc n) =
       ((q @ [(Rollback, None)]) @ new, \<lparr>committed = t0, working = Some w'\<rparr>,
        l\<lparr>responses := responses l @ [Reply 500 ErroAoInserirItemDaVenda]\<rparr>
         \<lparr>responses := responses (l\<lparr>responses := responses l @ [Reply 500 ErroAoInserirItemDaVenda]\<rparr>) @ errs\<rparr>,
        Suc n + length ds)"
      "list_all (\<lambda>task. snd task = None \<or> sale_pending task) new"
      "length (filter sale_pending new) \<le> length ds"
      "no_success errs"
      by blast
    show ?thesis
      apply (rule exI [of _ "(Rollback, None) # new"])
      apply (rule exI [of _ w'])
      apply (rule exI [of _ "Reply 500 ErroAoInserirItemDaVenda # errs"])
      using True ih
      apply (simp add: task_simps send_def no_success_def)
      done
  next
    case False
    let ?w1 = "insert_sale_item sid (d_product_id d) (d_quantity d) (d_unit_price d)
                 (d_total_price d) w"
    from Cons.IH [of "q @ [stock_task d]" ?w1 l "Suc n"]
    obtain new w' errs where ih:
      "batch flt (sale_cb uid req) (map (item_task sid) ds)
         (q @ [stock_task d], \<lparr>committed = t0, working = Some ?w1\<rparr>, l, Suc n) =
       ((q @ [stock_task d]) @ new, \<lparr>committed = t0, working = Some w'\<rparr>,
        l\<lparr>responses := responses l @ errs\<rparr>, Suc n + length ds)"
      "list_all (\<lambda>task. snd task = None \<or> sale_pending task) new"
      "length (filter sale_pending new) \<le> length ds"
      "no_success errs"
      "length (filter sale_pending new) = length ds \<longrightarrow>
        new = map stock_task ds \<and> errs = [] \<and>
        w' = ?w1\<lparr>sale_items := sale_items ?w1 @ map (item_row sid) ds\<rparr>"
      by blast
    show ?thesis
      apply (rule exI [of _ "stock_task d # new"])
      apply (rule exI [of _ w'])
      apply (rule exI [of _ errs])
      using False ih
      apply (simp add: task_simps view_def store_def stock_task_def [symmetric])
      apply (simp add: insert_sale_item_def item_row_def)
      done
  qed
qed

lemma stock_round:
  "\<exists>new w' errs.
     batch flt (sale_cb uid req) (map stock_task ds)
         (q, \<lparr>committed = t0, working = Some w\<rparr>, l, n) =
       (q @ new, \<lparr>committed = t0, working = Some w'\<rparr>,
        l\<lparr>responses := responses l @ errs\<rparr>, n + length ds) \<and>
     list_all (\<lambda>task. snd task = None \<or> sale_pending task) new \<and>
     length (filter sale_pending new) \<le> length ds \<and>
     no_success errs \<and>
     (length (filter sale_pending new) = length ds \<longrightarrow>
        new = map (movement_task uid (saleId l)) ds \<and> errs = [] \<and>
        w' = w\<lparr>inventory := sold ds (inventory w)\<rparr>)"
proof (induction ds arbitrary: q w l n)
  case Nil
  show ?case
    by (rule exI [of _ "[]"], rule exI [of _ w], rule exI [of _ "[]"])
      (simp add: no_success_def sold_def)
next
  case (Cons d ds)
  show ?case
  proof (cases "flt n (fst (stock_task d))")
    case True
    from Cons.IH [of "q @ [(Rollback, None)]" w
        "l\<lparr>responses := responses l @ [Reply 500 ErroAoAtualizarEstoque]\<rparr>" "Suc n"]
    obtain new w' errs where ih:
      "batch flt (sale_cb uid req) (map stock_task ds)
         (q @ [(Rollback, None)], \<lparr>committed = t0, working = Some w\<rparr>,
          l\<lparr>responses := responses l @ [Reply 500 ErroAoAtualizarEstoque]\<rparr>, Suc n) =
       ((q @ [(Rollback, None)]) @ new, \<lparr>committed = t0, working = Some w'\<rparr>,
        l\<lparr>responses := responses l @ [Reply 500 ErroAoAtualizarEstoque]\<rparr>
         \<lparr>responses := responses (l\<lparr>responses := responses l @ [Reply 500 ErroAoAtualizarEstoque]\<rparr>) @ errs\<rparr>,
        Suc n + length ds)"
      "list_all (\<lambda>task. snd task = None \<or> sale_pending task) new"
      "length (filter sale_pending new) \<le> length ds"
      "no_success errs"
      by blast
    show ?thesis
      apply (rule exI [of _ "(Rollback, None) # new"])
      apply (rule exI [of _ w'])
      apply (rule exI [of _ "Reply 500 ErroAoAtualizarEstoque # errs"])
      using True ih
      apply (simp add: task_simps send_def no_success_def)
      done
  next
    case False
    let ?w1 = "w\<lparr>inventory := update_inventory_sub (d_quantity d) (d_product_id d) (inventory w)\<rparr>"
    from Cons.IH [of "q @ [movement_task uid (saleId l) d]" ?w1 l "Suc n"]
    obtain new w' errs where ih:
      "batch flt (sale_cb uid req) (map stock_task ds)
         (q @ [movement_task uid (saleId l) d], \<lparr>committed = t0, working = Some ?w1\<rparr>, l, Suc n) =
       ((q @ [movement_task uid (saleId l) d]) @ new, \<lparr>committed = t0, working = Some w'\<rparr>,
        l\<lparr>responses := responses l @ errs\<rparr>, Suc n + length ds)"
      "list_all (\<lambda>task. snd task = None \<or> sale_pending task) new"
      "length (filter sale_pending new) \<le> length ds"
      "no_success errs"
      "length (filter sale_pending new) = length ds \<longrightarrow>
        new = map (movement_task uid (saleId l)) ds \<and> errs = [] \<and>
        w' = ?w1\<lparr>inventory := sold ds (inventory ?w1)\<rparr>"
      by blast
    have fold_task: "(InsertMovement (d_product_id d) ''saida'' (d_quantity d) ''Venda'' uid
          (Some (saleId l)) ''sale'', Some OnMovementInserted) = movement_task uid (saleId l) d"
      by (simp add: movement_task_def movement_stmt_def)
    show ?thesis
      apply (rule exI [of _ "movement_task uid (saleId l) d # new"])
      apply (rule exI [of _ w'])
      apply (rule exI [of _ errs])
      using False ih
      apply (simp add: task_simps view_def store_def fold_task)
      apply (simp add: sold_def)
      done
  qed
qed


text \<open>Every request that is answered with a 201 went through all the rounds without a
  failure other than in the movement log, whatever the oracle.\<close>

lemma no_success_rejected: "no_success (rejected (line_results flt n t its))"
  using rejected_line_results [of _ flt n t its]
  by (fastforce simp: no_success_def list_all_iff)

lemma rejected_Nil: "rejected rs = [] \<Longrightarrow> rs = map Inr (accepted rs)"
  by (induction rs rule: rejected.induct) simp_all

lemma line_results_Inr:
  "line_results flt n t its = map Inr ds \<Longrightarrow> map (line_check t) its = map Inr ds"
proof (induction its arbitrary: n ds)
  case Nil
  then show ?case by simp
next
  case (Cons item its)
  then obtain d ds' where "ds = d # ds'" "line_result flt n t item = Inr d"
      "line_results flt (Suc n) t its = map Inr ds'"
    by (cases ds) auto
  with Cons.IH [of "Suc n" ds'] show ?case
    by (auto simp: line_result_def split: if_splits)
qed

lemma post_sales_created:
  assumes valid: "valid_sale_request req"
    and ends: "post_sales flt uid req t = Some (rs, t')"
    and success: "\<not> no_success rs"
  shows "\<exists>ds. map (line_check t) (items req) = map Inr ds \<and>
     rs = [Reply 201 (VendaCriadaComSucesso (next_sale_id t)
                        (sum_list (map d_total_price ds) - discount req + tax req) (length ds))] \<and>
     t' = t\<lparr>sales := sales t @ [sale_header uid req t ds],
             sales_seq := next_sale_id t,
             sale_items := sale_items t @ map (item_row (next_sale_id t)) ds,
             inventory := sold ds (inventory t),
             inventory_movements := inventory_movements t @
               logged flt (3 * length ds + 2) uid (next_sale_id t) ds\<rparr>"
proof -
  let ?cb = "sale_cb uid req"
  let ?sid = "next_sale_id t"
  let ?rs = "line_results flt (Suc 0) t (items req)"
  have ne: "items req \<noteq> []"
    using valid by (simp add: valid_sale_request_def)
  have passed: "rejected ?rs = []"
  proof (rule ccontr)
    assume "rejected ?rs \<noteq> []"
    then have "post_sales flt uid req t = Some (rejected ?rs, t)"
      using post_sales_rejects [OF valid, of flt t uid] by simp
    with ends have "rs = rejected ?rs" by auto
    with success no_success_rejected show False by simp
  qed
  define ds where "ds = accepted ?rs"
  have res: "?rs = map Inr ds"
    using rejected_Nil [OF passed] by (simp add: ds_def)
  have checks: "map (line_check t) (items req) = map Inr ds"
    using line_results_Inr [OF res] .
  have len: "length ds = length (items req)"
    using checks by (metis length_map)
  have ds_ne: "ds \<noteq> []"
    using ne len by auto
  let ?final = "sum_list (map d_total_price ds) - discount req + tax req"
  have header: "\<not> flt (Suc (length ds)) (header_stmt uid req ds)"
  proof
    assume "flt (Suc (length ds)) (header_stmt uid req ds)"
    from header_insert_fails [OF valid res this] ends
    have "rs = [Reply 500 ErroAoCriarVenda]" by simp
    with success show False by (simp add: no_success_def)
  qed
  from ends valid obtain m' where m': "run flt ?cb (sale_start req t) = Some m'"
    and rs: "rs = responses (locals m')" and t': "t' = committed (conn m')"
    by (auto simp: post_sales_def)
  let ?l1 = "\<lparr>responses = [], totalAmount = sum_list (map d_total_price ds),
      processedItems = length (items req), saleItems = ds, finalTotal = ?final,
      saleId = 0, insertedItems = 0\<rparr>"
  let ?l2 = "?l1\<lparr>saleId := ?sid\<rparr>"
  let ?w2 = "insert_sale (customer_id req) uid ?final (discount req) (tax req)
               (payment_method req) (notes req) t"
  have r1: "run flt ?cb (sale_start req t) =
      run flt ?cb \<lparr>queue = map (item_task ?sid) ds,
                   conn = \<lparr>committed = t, working = Some ?w2\<rparr>, locals = ?l2,
                   clock = length ds + 2\<rparr>"
    apply (simp only: sale_lines_pass [OF ne res])
    apply (subst run_round)
    using header
    apply (simp add: header_stmt_def resume_def view_def store_def item_task_def [abs_def] len)
    done
  obtain new3 w3 errs3 where round3:
    "batch flt ?cb (map (item_task ?sid) ds)
         ([], \<lparr>committed = t, working = Some ?w2\<rparr>, ?l2, length ds + 2) =
       ([] @ new3, \<lparr>committed = t, working = Some w3\<rparr>,
        ?l2\<lparr>responses := responses ?l2 @ errs3\<rparr>, length ds + 2 + length ds)"
    "list_all (\<lambda>task. snd task = None \<or> sale_pending task) new3"
    "length (filter sale_pending new3) \<le> length ds"
    "no_success errs3"
    "length (filter sale_pending new3) = length ds \<longrightarrow>
        new3 = map stock_task ds \<and> errs3 = [] \<and>
        w3 = ?w2\<lparr>sale_items := sale_items ?w2 @ map (item_row ?sid) ds\<rparr>"
    using items_round [of flt uid req ?sid ds "[]" t ?w2 ?l2 "length ds + 2"] by blast
  have r2: "run flt ?cb (sale_start req t) =
      run flt ?cb \<lparr>queue = new3, conn = \<lparr>committed = t, working = Some w3\<rparr>,
                   locals = ?l2\<lparr>responses := errs3\<rparr>, clock = length ds + 2 + length ds\<rparr>"
    apply (simp only: r1)
    apply (subst run_round)
    apply (simp only: round3(1))
    apply (simp add: resume_def)
    done
  have clean3: "length (filter sale_pending new3) = length ds"
  proof (rule ccontr)
    assume "length (filter sale_pending new3) \<noteq> length ds"
    with round3(2,3,4) have "stalled \<lparr>queue = new3, conn = \<lparr>committed = t, working = Some w3\<rparr>,
                   locals = ?l2\<lparr>responses := errs3\<rparr>, clock = length ds + 2 + length ds\<rparr>"
      by (simp add: stalled_def)
    from stalled_run [OF _ this] m' r2 have "no_success (responses (locals m'))"
      by simp
    with success rs show False by simp
  qed
  let ?w3 = "?w2\<lparr>sale_items := sale_items ?w2 @ map (item_row ?sid) ds\<rparr>"
  have r3: "run flt ?cb (sale_start req t) =
      run flt ?cb \<lparr>queue = map stock_task ds, conn = \<lparr>committed = t, working = Some ?w3\<rparr>,
                   locals = ?l2, clock = length ds + 2 + length ds\<rparr>"
    using r2 round3(5) clean3 by simp
  obtain new4 w4 errs4 where round4:
    "batch flt ?cb (map stock_task ds)
         ([], \<lparr>committed = t, working = Some ?w3\<rparr>, ?l2, length ds + 2 + length ds) =
       ([] @ new4, \<lparr>committed = t, working = Some w4\<rparr>,
        ?l2\<lparr>responses := responses ?l2 @ errs4\<rparr>, length ds + 2 + length ds + length ds)"
    "list_all (\<lambda>task. snd task = None \<or> sale_pending task) new4"
    "length (filter sale_pending new4) \<le> length ds"
    "no_success errs4"
    "length (filter sale_pending new4) = length ds \<longrightarrow>
        new4 = map (movement_task uid (saleId ?l2)) ds \<and> errs4 = [] \<and>
        w4 = ?w3\<lparr>inventory := sold ds (inventory ?w3)\<rparr>"
    using stock_round [of flt uid req ds "[]" t ?w3 ?l2 "length ds + 2 + length ds"] by blast
  have r4: "run flt ?cb (sale_start req t) =
      run flt ?cb \<lparr>queue = new4, conn = \<lparr>committed = t, working = Some w4\<rparr>,
                   locals = ?l2\<lparr>responses := errs4\<rparr>,
                   clock = length ds + 2 + length ds + length ds\<rparr>"
    apply (simp only: r3)
    apply (subst run_round)
    apply (simp only: round4(1))
    apply (simp add: resume_def)
    done
  have clean4: "length (filter sale_pending new4) = length ds"
  proof (rule ccontr)
    assume "length (filter sale_pending new4) \<noteq> length ds"
    with round4(2,3,4) have "stalled \<lparr>queue = new4, conn = \<lparr>committed = t, working = Some w4\<rparr>,
                   locals = ?l2\<lparr>responses := errs4\<rparr>,
                   clock = length ds + 2 + length ds + length ds\<rparr>"
      by (simp add: stalled_def)
    from stalled_run [OF _ this] m' r4 have "no_success (responses (locals m'))"
      by simp
    with success rs show False by simp
  qed
  let ?w4 = "?w3\<lparr>inventory := sold ds (inventory ?w3)\<rparr>"
  let ?n5 = "length ds + 2 + length ds + length ds"
  have r5: "run flt ?cb (sale_start req t) =
      run flt ?cb \<lparr>queue = map (movement_task uid ?sid) ds,
                   conn = \<lparr>committed = t, working = Some ?w4\<rparr>,
                   locals = ?l2, clock = ?n5\<rparr>"
    using r4 round4(5) clean4 by simp
  let ?w5 = "?w4\<lparr>inventory_movements := inventory_movements ?w4 @ logged flt ?n5 uid ?sid ds\<rparr>"
  have r6: "run flt ?cb (sale_start req t) =
      run flt ?cb \<lparr>queue = [(Commit, Some OnCommit)],
                   conn = \<lparr>committed = t, working = Some ?w5\<rparr>,
                   locals = ?l2\<lparr>insertedItems := length ds\<rparr>,
                   clock = ?n5 + length ds\<rparr>"
    apply (simp only: r5)
    apply (subst run_round)
    apply (subst movements_logged)
      apply (simp_all add: ds_ne resume_def)
    done
  have commit: "\<not> flt (?n5 + length ds) Commit"
  proof
    assume "flt (?n5 + length ds) Commit"
    then have "run flt ?cb (sale_start req t) =
        Some \<lparr>queue = [], conn = \<lparr>committed = t, working = Some ?w5\<rparr>,
              locals = ?l2\<lparr>insertedItems := length ds,
                         responses := [Reply 500 ErroAoConfirmarVenda]\<rparr>,
              clock = Suc (?n5 + length ds)\<rparr>"
      apply (simp only: r6)
      apply (subst run_round)
      apply (simp add: resume_def send_def run_Nil)
      done
    with m' rs have "rs = [Reply 500 ErroAoConfirmarVenda]" by auto
    with success show False by (simp add: no_success_def)
  qed
  then have "run flt ?cb (sale_start req t) =
        Some \<lparr>queue = [], conn = \<lparr>committed = ?w5, working = None\<rparr>,
              locals = ?l2\<lparr>insertedItems := length ds,
                         responses := [Reply 201 (VendaCriadaComSucesso ?sid ?final (length ds))]\<rparr>,
              clock = Suc (?n5 + length ds)\<rparr>"
    apply (simp only: r6)
    apply (subst run_round)
    apply (simp add: resume_def send_def run_Nil)
    done
  with m' rs t' have final: "rs = [Reply 201 (VendaCriadaComSucesso ?sid ?final (length ds))]"
    "t' = ?w5"
    by auto
  have clk: "3 * length ds + 2 = ?n5"
    by simp
  show ?thesis
    apply (rule exI [of _ ds])
    apply (intro conjI checks)
     apply (rule final(1))
    apply (simp only: final(2) clk)
    apply (simp add: insert_sale_def sale_header_def)
    done
qed


lemma created_is_valid:
  assumes "post_sales flt uid req t = Some (rs, t')" and "Reply 201 b \<in> set rs"
  shows "valid_sale_request req \<and> \<not> no_success rs"
proof -
  have "\<not> no_success rs"
  proof
    assume "no_success rs"
    then have "\<forall>r\<in>set rs. case r of Reply code b \<Rightarrow> code \<noteq> 201"
      by (simp add: no_success_def list_all_iff)
    from bspec [OF this assms(2)] show False by simp
  qed
  moreover have "valid_sale_request req"
  proof (rule ccontr)
    assume "\<not> valid_sale_request req"
    with assms(1) have "rs = [Reply 400 ValidationErrors]"
      by (simp add: post_sales_def)
    with assms(2) show False by simp
  qed
  ultimately show ?thesis by simp
qed


section \<open>The examples, evaluated\<close>

lemma boards_sold:
  "post_sales no_fault 1 board_request yard_db =
     Some ([Reply 201 (VendaCriadaComSucesso 1 777 1)], sold_db)"
  by code_simp


section \<open>The claims\<close>

text \<open>
  C1. The claim: if any step of a sale fails, the insert into the movement log included,
  the database is left as it was and the failure is not reported as success. The callback
  of the movement insert only logs its error (\<^verbatim>\<open>Don't rollback for movement errors, just
  log\<close>) and goes on to the commit. With the movement log failing, the sale of thirty boards
  is answered 201 and the database holds the header, the line item and the decrement of
  the stock from 100 to 70, and no movement.
\<close>

theorem failed_movement_insert_is_committed:
  "movement_log_down 5 (movement_stmt 1 1 board_draft) \<and>
   map_option fst (post_sales movement_log_down 1 board_request yard_db) =
     Some [Reply 201 (VendaCriadaComSucesso 1 777 1)] \<and>
   map_option (map i_quantity \<circ> inventory \<circ> snd)
     (post_sales movement_log_down 1 board_request yard_db) = Some [70, 100] \<and>
   map_option (map s_id \<circ> sales \<circ> snd)
     (post_sales movement_log_down 1 board_request yard_db) = Some [1] \<and>
   map_option (map si_sale_id \<circ> sale_items \<circ> snd)
     (post_sales movement_log_down 1 board_request yard_db) = Some [1] \<and>
   map_option (inventory_movements \<circ> snd)
     (post_sales movement_log_down 1 board_request yard_db) = Some [] \<and>
   map i_quantity (inventory yard_db) = [100, 100] \<and> sales yard_db = []"
  by code_simp

text \<open>
  C1, as the handler behaves, for a valid request. (1) If the check or the query of some
  line fails, the handler ends with the tables unchanged, and sends errors only. (2) If
  all lines pass and the insert of the header fails, the answer is a 500 and the tables
  are unchanged. (3, 4) For a request of one line, the same holds when the insert of the
  line item or the decrement of the stock fails. (5) When only inserts into the movement
  log fail, the sale is committed and answered 201: header, line items and decrements are
  in the tables, and of the movements those whose insert did not fail. (6) Whatever
  fails, and for any number of lines, a 201 is sent only in the case of (5): every line
  passed, and the header, all line items and all decrements are committed. Statement
  numbers count from 0, the \<^verbatim>\<open>BEGIN\<close>; the product queries follow, then the header.
\<close>

theorem sale_creation_failures:
  assumes "valid_sale_request req"
  shows "(rejected (line_results flt 1 t (items req)) \<noteq> [] \<longrightarrow>
            (\<exists>rs. post_sales flt uid req t = Some (rs, t) \<and> rs \<noteq> [] \<and>
               (\<forall>b. Reply 201 b \<notin> set rs))) \<and>
         (line_results flt 1 t (items req) = map Inr ds \<and>
          flt (Suc (length ds)) (header_stmt uid req ds) \<longrightarrow>
            post_sales flt uid req t = Some ([Reply 500 ErroAoCriarVenda], t)) \<and>
         (items req = [item] \<and> line_result flt 1 t item = Inr d \<and>
          \<not> flt 2 (header_stmt uid req [d]) \<and> flt 3 (fst (item_task (next_sale_id t) d)) \<longrightarrow>
            post_sales flt uid req t = Some ([Reply 500 ErroAoInserirItemDaVenda], t)) \<and>
         (items req = [item] \<and> line_result flt 1 t item = Inr d \<and>
          \<not> flt 2 (header_stmt uid req [d]) \<and> \<not> flt 3 (fst (item_task (next_sale_id t) d)) \<and>
          flt 4 (fst (stock_task d)) \<longrightarrow>
            post_sales flt uid req t = Some ([Reply 500 ErroAoAtualizarEstoque], t)) \<and>
         (tolerated flt \<and> map (line_check t) (items req) = map Inr ds \<longrightarrow>
            post_sales flt uid req t =
              Some ([Reply 201 (VendaCriadaComSucesso (next_sale_id t)
                                  (sum_list (map d_total_price ds) - discount req + tax req)
                                  (length ds))],
                    t\<lparr>sales := sales t @ [sale_header uid req t ds],
                      sales_seq := next_sale_id t,
                      sale_items := sale_items t @ map (item_row (next_sale_id t)) ds,
                      inventory := sold ds (inventory t),
                      inventory_movements := inventory_movements t @
                        logged flt (3 * length ds + 2) uid (next_sale_id t) ds\<rparr>)) \<and>
         (post_sales flt uid req t = Some (rs, t') \<and> Reply 201 b \<in> set rs \<longrightarrow>
            (\<exists>ds. map (line_check t) (items req) = map Inr ds \<and>
               rs = [Reply 201 (VendaCriadaComSucesso (next_sale_id t)
                                  (sum_list (map d_total_price ds) - discount req + tax req)
                                  (length ds))] \<and>
               t' = t\<lparr>sales := sales t @ [sale_header uid req t ds],
                       sales_seq := next_sale_id t,
                       sale_items := sale_items t @ map (item_row (next_sale_id t)) ds,
                       inventory := sold ds (inventory t),
                       inventory_movements := inventory_movements t @
                         logged flt (3 * length ds + 2) uid (next_sale_id t) ds\<rparr>))"
proof (intro conjI impI)
  assume ne: "rejected (line_results flt 1 t (items req)) \<noteq> []"
  let ?rs = "rejected (line_results flt 1 t (items req))"
  have "post_sales flt uid req t = Some (?rs, t)"
    using post_sales_rejects [OF assms ne] .
  moreover have "\<forall>b. Reply 201 b \<notin> set ?rs"
    using rejected_line_results [of _ flt 1 t "items req"] by fastforce
  ultimately show "\<exists>rs. post_sales flt uid req t = Some (rs, t) \<and> rs \<noteq> [] \<and>
      (\<forall>b. Reply 201 b \<notin> set rs)"
    using ne by blast
next
  assume "line_results flt 1 t (items req) = map Inr ds \<and>
      flt (Suc (length ds)) (header_stmt uid req ds)"
  then show "post_sales flt uid req t = Some ([Reply 500 ErroAoCriarVenda], t)"
    using header_insert_fails [OF assms, of flt t ds uid] by simp
next
  assume "items req = [item] \<and> line_result flt 1 t item = Inr d \<and>
      \<not> flt 2 (header_stmt uid req [d]) \<and> flt 3 (fst (item_task (next_sale_id t) d))"
  then show "post_sales flt uid req t = Some ([Reply 500 ErroAoInserirItemDaVenda], t)"
    using single_line_fails [OF assms, of item flt t d uid] by simp
next
  assume "items req = [item] \<and> line_result flt 1 t item = Inr d \<and>
      \<not> flt 2 (header_stmt uid req [d]) \<and> \<not> flt 3 (fst (item_task (next_sale_id t) d)) \<and>
      flt 4 (fst (stock_task d))"
  then show "post_sales flt uid req t = Some ([Reply 500 ErroAoAtualizarEstoque], t)"
    using single_line_fails [OF assms, of item flt t d uid] by simp
next
  assume "tolerated flt \<and> map (line_check t) (items req) = map Inr ds"
  then show "post_sales flt uid req t =
      Some ([Reply 201 (VendaCriadaComSucesso (next_sale_id t)
                          (sum_list (map d_total_price ds) - discount req + tax req)
                          (length ds))],
            t\<lparr>sales := sales t @ [sale_header uid req t ds],
              sales_seq := next_sale_id t,
              sale_items := sale_items t @ map (item_row (next_sale_id t)) ds,
              inventory := sold ds (inventory t),
              inventory_movements := inventory_movements t @
                logged flt (3 * length ds + 2) uid (next_sale_id t) ds\<rparr>)"
    using post_sales_accepts [OF assms, of flt t ds uid] by simp
next
  assume "post_sales flt uid req t = Some (rs, t') \<and> Reply 201 b \<in> set rs"
  then have ends: "post_sales flt uid req t = Some (rs, t')" and sent: "Reply 201 b \<in> set rs"
    by simp_all
  from created_is_valid [OF ends sent] have "\<not> no_success rs"
    by simp
  from post_sales_created [OF assms ends this]
  show "\<exists>ds. map (line_check t) (items req) = map Inr ds \<and>
      rs = [Reply 201 (VendaCriadaComSucesso (next_sale_id t)
                         (sum_list (map d_total_price ds) - discount req + tax req)
                         (length ds))] \<and>
      t' = t\<lparr>sales := sales t @ [sale_header uid req t ds],
              sales_seq := next_sale_id t,
              sale_items := sale_items t @ map (item_row (next_sale_id t)) ds,
              inventory := sold ds (inventory t),
              inventory_movements := inventory_movements t @
                logged flt (3 * length ds + 2) uid (next_sale_id t) ds\<rparr>" .
qed

theorem sale_creation_failures_witness:
  "valid_sale_request board_request \<and>
   rejected (line_results (fails_at 1) 1 yard_db (items board_request)) \<noteq> [] \<and>
   post_sales (fails_at 1) 1 board_request yard_db =
     Some ([Reply 500 ErroAoValidarProduto], yard_db) \<and>
   line_results (fails_at 2) 1 yard_db (items board_request) = map Inr [board_draft] \<and>
   fails_at 2 (Suc (length [board_draft])) (header_stmt 1 board_request [board_draft]) \<and>
   post_sales (fails_at 2) 1 board_request yard_db = Some ([Reply 500 ErroAoCriarVenda], yard_db) \<and>
   post_sales (fails_at 3) 1 board_request yard_db =
     Some ([Reply 500 ErroAoInserirItemDaVenda], yard_db) \<and>
   post_sales (fails_at 4) 1 board_request yard_db =
     Some ([Reply 500 ErroAoAtualizarEstoque], yard_db) \<and>
   tolerated movement_log_down \<and>
   map (line_check yard_db) (items board_request) = map Inr [board_draft] \<and>
   post_sales movement_log_down 1 board_request yard_db =
     Some ([Reply 201 (VendaCriadaComSucesso 1 777 1)],
           yard_db\<lparr>sales := [sale_header 1 board_request yard_db [board_draft]],
                   sales_seq := 1,
                   sale_items := [item_row 1 board_draft],
                   inventory := [\<lparr>i_product_id = 1, i_quantity = 70\<rparr>,
                                 \<lparr>i_product_id = 2, i_quantity = 100\<rparr>],
                   inventory_movements := []\<rparr>) \<and>
   Reply 201 (VendaCriadaComSucesso 1 777 1) \<in> set [Reply 201 (VendaCriadaComSucesso 1 777 1)] \<and>
   (\<exists>ds. map (line_check yard_db) (items board_request) = map Inr ds \<and>
      [Reply 201 (VendaCriadaComSucesso 1 777 1)] =
      [Reply 201 (VendaCriadaComSucesso (next_sale_id yard_db)
         (sum_list (map d_total_price ds) - discount board_request + tax board_request)
         (length ds))])"
proof -
  note th = sale_creation_failures
  have valid: "valid_sale_request board_request"
    by code_simp
  have one: "items board_request = [\<lparr>product_id = 1, quantity = 30\<rparr>]"
    by (simp add: board_request_def)
  have check: "line_check yard_db \<lparr>product_id = 1, quantity = 30\<rparr> = Inr board_draft"
    by (simp add: line_check_def product_query_def yard_db_def js_less_def board_draft_def)
  have r1: "rejected (line_results (fails_at 1) 1 yard_db (items board_request)) \<noteq> []"
    by (simp add: one line_result_def fails_at_def)
  have l1: "line_results (fails_at 1) 1 yard_db (items board_request) =
      [Inl (Reply 500 ErroAoValidarProduto)]"
    by (simp add: one line_result_def fails_at_def)
  have c1: "post_sales (fails_at 1) 1 board_request yard_db =
      Some ([Reply 500 ErroAoValidarProduto], yard_db)"
    using post_sales_rejects [OF valid r1] unfolding l1 by simp
  have r2: "line_results (fails_at 2) 1 yard_db (items board_request) = map Inr [board_draft]"
    using check by (simp add: one line_result_def fails_at_def)
  have f2: "fails_at 2 (Suc (length [board_draft])) (header_stmt 1 board_request [board_draft])"
    by (simp add: fails_at_def)
  have c2: "post_sales (fails_at 2) 1 board_request yard_db =
      Some ([Reply 500 ErroAoCriarVenda], yard_db)"
    using th [OF valid, of "fails_at 2" yard_db 1 "[board_draft]"] r2 f2 by blast
  have c3: "post_sales (fails_at 3) 1 board_request yard_db =
      Some ([Reply 500 ErroAoInserirItemDaVenda], yard_db)"
    using th [OF valid, of "fails_at 3" yard_db 1 _ "\<lparr>product_id = 1, quantity = 30\<rparr>" board_draft]
      one check
    by (simp add: fails_at_def line_result_def)
  have c4: "post_sales (fails_at 4) 1 board_request yard_db =
      Some ([Reply 500 ErroAoAtualizarEstoque], yard_db)"
    using th [OF valid, of "fails_at 4" yard_db 1 _ "\<lparr>product_id = 1, quantity = 30\<rparr>" board_draft]
      one check
    by (simp add: fails_at_def line_result_def)
  have tol: "tolerated movement_log_down"
    by (simp add: tolerated_def movement_log_down_def)
  have r5: "map (line_check yard_db) (items board_request) = map Inr [board_draft]"
    using check by (simp add: one)
  have next_id: "next_sale_id yard_db = 1"
    by (simp add: next_sale_id_def yard_db_def)
  have c5: "post_sales movement_log_down 1 board_request yard_db =
     Some ([Reply 201 (VendaCriadaComSucesso 1 777 1)],
           yard_db\<lparr>sales := [sale_header 1 board_request yard_db [board_draft]],
                   sales_seq := 1,
                   sale_items := [item_row 1 board_draft],
                   inventory := [\<lparr>i_product_id = 1, i_quantity = 70\<rparr>,
                                 \<lparr>i_product_id = 2, i_quantity = 100\<rparr>],
                   inventory_movements := []\<rparr>)"
    using th [OF valid, of movement_log_down yard_db 1 "[board_draft]"] tol r5
    by (simp add: next_id)
      (simp add: yard_db_def board_draft_def board_request_def sold_def update_inventory_sub_def
        movement_log_down_def is_movement_insert_def movement_stmt_def)
  have sent: "Reply 201 (VendaCriadaComSucesso 1 777 1) \<in>
      set [Reply 201 (VendaCriadaComSucesso 1 777 1)]"
    by simp
  have c6: "\<exists>ds. map (line_check yard_db) (items board_request) = map Inr ds \<and>
      [Reply 201 (VendaCriadaComSucesso 1 777 1)] =
      [Reply 201 (VendaCriadaComSucesso (next_sale_id yard_db)
         (sum_list (map d_total_price ds) - discount board_request + tax board_request)
         (length ds))]"
    using th [OF valid, of movement_log_down yard_db 1 _ _ _
        "[Reply 201 (VendaCriadaComSucesso 1 777 1)]" _ "VendaCriadaComSucesso 1 777 1"] c5 sent
    by blast
  show ?thesis
    using valid r1 c1 r2 f2 c2 c3 c4 tol r5 c5 sent c6 by simp
qed


text \<open>
  A remark on requests of several lines. The statements of the lines are issued side by
  side, and each callback that sees an error issues its own rollback while the callbacks of
  the other lines go on. With statements run in the order of issue, the failure of the
  first line-item insert of a two-line sale (statement 4) is answered with a 500, but the
  decrement and the movement of the second line run after the rollback and stay in the
  database. For this reason the statement above speaks of the line-item insert and the
  decrement for requests of one line only.
\<close>

lemma two_line_sale_failure_leaves_writes:
  "map_option fst (post_sales (fails_at 4) 1 two_line_request yard_db) =
     Some [Reply 500 ErroAoInserirItemDaVenda] \<and>
   map_option (map i_quantity \<circ> inventory \<circ> snd)
     (post_sales (fails_at 4) 1 two_line_request yard_db) = Some [100, 90] \<and>
   map_option (map m_product_id \<circ> inventory_movements \<circ> snd)
     (post_sales (fails_at 4) 1 two_line_request yard_db) = Some [2] \<and>
   map_option (sales \<circ> snd) (post_sales (fails_at 4) 1 two_line_request yard_db) = Some []"
  by code_simp


text \<open>
  C3. If some line of a valid request does not pass (no active product has its id, or the
  stock of the product is below the quantity asked), the handler ends, the tables are the
  ones it started from, at least one response is sent and none of them is the 201 of a
  created sale; this holds whatever statements fail. When no product query fails, the
  responses are the errors of the failing lines, in the order of the request (the client
  receives the first): for a missing or inactive product the error names the product id,
  for short stock it names the product and the stock available.
\<close>

theorem failing_line_rejects_sale:
  assumes "valid_sale_request req"
    and "item \<in> set (items req)"
    and "\<not> line_passes t item"
  shows "\<exists>rs. post_sales flt uid req t = Some (rs, t) \<and> rs \<noteq> [] \<and>
           (\<forall>b. Reply 201 b \<notin> set rs) \<and>
           ((\<forall>n pid. \<not> flt n (ProductQuery pid)) \<longrightarrow>
              rs = map (line_error t) (filter (\<lambda>i. \<not> line_passes t i) (items req)))"
proof -
  let ?rs = "rejected (line_results flt 1 t (items req))"
  have ne: "?rs \<noteq> []"
    using failing_line_rejected [OF assms(2,3)] .
  have "post_sales flt uid req t = Some (?rs, t)"
    using post_sales_rejects [OF assms(1) ne] .
  moreover have "\<forall>b. Reply 201 b \<notin> set ?rs"
    using rejected_line_results [of _ flt 1 t "items req"] by fastforce
  moreover have "(\<forall>n pid. \<not> flt n (ProductQuery pid)) \<longrightarrow>
      ?rs = map (line_error t) (filter (\<lambda>i. \<not> line_passes t i) (items req))"
    by (simp add: line_results_checks rejected_checks)
  ultimately show ?thesis
    using ne by blast
qed

theorem failing_line_rejects_sale_witness:
  "valid_sale_request ghost_request \<and>
   \<lparr>product_id = 2, quantity = 101\<rparr> \<in> set (items ghost_request) \<and>
   \<not> line_passes yard_db \<lparr>product_id = 2, quantity = 101\<rparr> \<and>
   post_sales no_fault 1 ghost_request yard_db =
     Some ([Reply 400 (ProdutoNaoEncontradoOuInativo 9),
            Reply 400 (EstoqueInsuficientePara ''Viga de Eucalipto'' (Some 100))], yard_db)"
proof -
  have h1: "valid_sale_request ghost_request"
    by code_simp
  have h2: "\<lparr>product_id = 2, quantity = 101\<rparr> \<in> set (items ghost_request)"
    by (simp add: ghost_request_def)
  have h3: "\<not> line_passes yard_db \<lparr>product_id = 2, quantity = 101\<rparr>"
    by code_simp
  have nf: "\<forall>n pid. \<not> no_fault n (ProductQuery pid)"
    by (simp add: no_fault_def)
  from failing_line_rejects_sale [OF h1 h2 h3, of no_fault 1] nf
  obtain rs where "post_sales no_fault 1 ghost_request yard_db = Some (rs, yard_db)"
    and "rs = map (line_error yard_db) (filter (\<lambda>i. \<not> line_passes yard_db i) (items ghost_request))"
    by blast
  moreover have "map (line_error yard_db) (filter (\<lambda>i. \<not> line_passes yard_db i) (items ghost_request)) =
      [Reply 400 (ProdutoNaoEncontradoOuInativo 9),
       Reply 400 (EstoqueInsuficientePara ''Viga de Eucalipto'' (Some 100))]"
    by code_simp
  ultimately show ?thesis
    using h1 h2 h3 by simp
qed




text \<open>
  C5. The claim: once a sale is cancelled, no status update makes it completed again or
  restores the stock a second time, and an invalid transition is answered with a conflict.
  The handler checks no transition. In the yard where sale 1 was made and cancelled, the
  request to set it to \<^verbatim>\<open>'concluida'\<close> is answered with success and the sale is completed
  again; the request to cancel it that follows is answered with success too, adds the 30
  boards to the stock a second time (130, where 100 were in stock before the sale) and
  logs a third movement.
\<close>

theorem cancelled_sale_can_be_reopened:
  "put_sale_status no_fault 1 1 ''concluida'' cancelled_db =
     Some ([Reply 200 StatusDaVendaAtualizadoComSucesso], reopened_db) \<and>
   map s_status (sales cancelled_db) = [''cancelada''] \<and>
   map s_status (sales reopened_db) = [''concluida''] \<and>
   map i_quantity (inventory reopened_db) = [100, 100] \<and>
   map_option fst (put_sale_status no_fault 1 1 ''cancelada'' reopened_db) =
     Some [Reply 200 StatusDaVendaAtualizadoComSucesso] \<and>
   map_option (map i_quantity \<circ> inventory \<circ> snd)
     (put_sale_status no_fault 1 1 ''cancelada'' reopened_db) = Some [130, 100] \<and>
   map_option (length \<circ> inventory_movements \<circ> snd)
     (put_sale_status no_fault 1 1 ''cancelada'' reopened_db) = Some 3"
  by code_simp

text \<open>
  C5, as the handler behaves. A status update of a cancelled sale restores no stock: for
  every valid status asked for, also \<^verbatim>\<open>'concluida'\<close>, it only sets that status and
  answers with success (no statement failing, except inserts into the movement log, of
  which there are none here). Once the sale is completed again, a request to cancel it
  restores the stock of its line items again. The handler has no conflict response.
\<close>

theorem status_update_of_cancelled_sale:
  assumes "valid_status st"
    and "tolerated flt"
    and "find (\<lambda>s. s_id s = sid) (sales t) = Some sale"
    and "s_status sale = ''cancelada''"
  shows "put_sale_status flt uid sid st t =
           Some ([Reply 200 StatusDaVendaAtualizadoComSucesso],
                 t\<lparr>sales := update_sale_status st sid (sales t)\<rparr>) \<and>
         (items_of sid t \<noteq> [] \<longrightarrow>
            put_sale_status flt uid sid ''cancelada''
                (t\<lparr>sales := update_sale_status ''concluida'' sid (sales t)\<rparr>) =
              Some ([Reply 200 StatusDaVendaAtualizadoComSucesso],
                    t\<lparr>inventory := restored (items_of sid t) (inventory t),
                      inventory_movements := inventory_movements t @
                        restore_logged flt (length (items_of sid t) + 3) uid sid (items_of sid t),
                      sales := update_sale_status ''cancelada'' sid (sales t)\<rparr>))"
proof
  have "\<not> (s_status sale = ''concluida'' \<and> st = ''cancelada'')"
    using assms(4) by simp
  from put_sale_status_plain [OF assms(1,3) this, of flt uid]
  show "put_sale_status flt uid sid st t =
           Some ([Reply 200 StatusDaVendaAtualizadoComSucesso],
                 t\<lparr>sales := update_sale_status st sid (sales t)\<rparr>)"
    using assms(2) by simp
next
  let ?t1 = "t\<lparr>sales := update_sale_status ''concluida'' sid (sales t)\<rparr>"
  show "items_of sid t \<noteq> [] \<longrightarrow>
            put_sale_status flt uid sid ''cancelada'' ?t1 =
              Some ([Reply 200 StatusDaVendaAtualizadoComSucesso],
                    t\<lparr>inventory := restored (items_of sid t) (inventory t),
                      inventory_movements := inventory_movements t @
                        restore_logged flt (length (items_of sid t) + 3) uid sid (items_of sid t),
                      sales := update_sale_status ''cancelada'' sid (sales t)\<rparr>)"
  proof
    assume ne: "items_of sid t \<noteq> []"
    have found: "find (\<lambda>s. s_id s = sid) (sales ?t1) = Some (sale\<lparr>s_status := ''concluida''\<rparr>)"
      using find_updated_sale [OF assms(3)] by simp
    have rows: "items_of sid ?t1 = items_of sid t"
      by (simp add: items_of_def)
    have twice: "update_sale_status ''cancelada'' sid (update_sale_status ''concluida'' sid (sales t)) =
        update_sale_status ''cancelada'' sid (sales t)"
      by (induction "sales t") (simp_all add: update_sale_status_def)
    have ne1: "items_of sid ?t1 \<noteq> []"
      using ne by (simp add: rows)
    have completed: "s_status (sale\<lparr>s_status := ''concluida''\<rparr>) = ''concluida''"
      by simp
    show "put_sale_status flt uid sid ''cancelada'' ?t1 =
              Some ([Reply 200 StatusDaVendaAtualizadoComSucesso],
                    t\<lparr>inventory := restored (items_of sid t) (inventory t),
                      inventory_movements := inventory_movements t @
                        restore_logged flt (length (items_of sid t) + 3) uid sid (items_of sid t),
                      sales := update_sale_status ''cancelada'' sid (sales t)\<rparr>)"
      using put_sale_status_cancels [OF assms(2) found completed ne1, of uid]
      by (simp add: rows twice)
  qed
qed

theorem status_update_of_cancelled_sale_witness:
  "valid_status ''concluida'' \<and> tolerated no_fault \<and>
   find (\<lambda>s. s_id s = 1) (sales cancelled_db) = Some (hd (sales cancelled_db)) \<and>
   s_status (hd (sales cancelled_db)) = ''cancelada'' \<and>
   items_of 1 cancelled_db \<noteq> [] \<and>
   put_sale_status no_fault 1 1 ''concluida'' cancelled_db =
     Some ([Reply 200 StatusDaVendaAtualizadoComSucesso],
           cancelled_db\<lparr>sales := update_sale_status ''concluida'' 1 (sales cancelled_db)\<rparr>) \<and>
   put_sale_status no_fault 1 1 ''cancelada''
       (cancelled_db\<lparr>sales := update_sale_status ''concluida'' 1 (sales cancelled_db)\<rparr>) =
     Some ([Reply 200 StatusDaVendaAtualizadoComSucesso],
           cancelled_db\<lparr>inventory := restored (items_of 1 cancelled_db) (inventory cancelled_db),
             inventory_movements := inventory_movements cancelled_db @
               restore_logged no_fault (length (items_of 1 cancelled_db) + 3) 1 1
                 (items_of 1 cancelled_db),
             sales := update_sale_status ''cancelada'' 1 (sales cancelled_db)\<rparr>)"
proof -
  have h1: "valid_status ''concluida''"
    by code_simp
  have h3: "find (\<lambda>s. s_id s = 1) (sales cancelled_db) = Some (hd (sales cancelled_db))"
    by code_simp
  have h4: "s_status (hd (sales cancelled_db)) = ''cancelada''"
    by code_simp
  have h5: "items_of 1 cancelled_db \<noteq> []"
    by code_simp
  from status_update_of_cancelled_sale [OF h1 tolerated_no_fault h3 h4, of 1] h5
  show ?thesis
    using h1 h3 h4 by simp
qed


text \<open>
  C6. If the sale exists and its status is not \<^verbatim>\<open>'concluida'\<close>, a status update ends,
  whatever status it asks for and whatever statements fail, with the stock and the movement
  log as they were: the tables are unchanged, or differ only in the status of the sale.
  When the status asked for is valid and no statement fails, the answer is the success
  message and the status is the one asked for.
\<close>

theorem status_update_of_other_sale_keeps_stock:
  assumes "find (\<lambda>s. s_id s = sid) (sales t) = Some sale"
    and "s_status sale \<noteq> ''concluida''"
  shows "\<exists>rs t'. put_sale_status flt uid sid st t = Some (rs, t') \<and>
           inventory t' = inventory t \<and>
           inventory_movements t' = inventory_movements t \<and>
           (t' = t \<or> t' = t\<lparr>sales := update_sale_status st sid (sales t)\<rparr>) \<and>
           (valid_status st \<and> tolerated flt \<longrightarrow>
              rs = [Reply 200 StatusDaVendaAtualizadoComSucesso] \<and>
              t' = t\<lparr>sales := update_sale_status st sid (sales t)\<rparr>)"
proof (cases "valid_status st")
  case False
  then show ?thesis
    by (simp add: put_sale_status_def)
next
  case True
  have "\<not> (s_status sale = ''concluida'' \<and> st = ''cancelada'')"
    using assms(2) by simp
  from put_sale_status_plain [OF True assms(1) this, of flt uid]
  show ?thesis
    by (auto simp del: tolerated_simps dest: tolerated_simps(7,9))
qed

theorem status_update_of_other_sale_keeps_stock_witness:
  "find (\<lambda>s. s_id s = 1) (sales cancelled_db) = Some (hd (sales cancelled_db)) \<and>
   s_status (hd (sales cancelled_db)) \<noteq> ''concluida'' \<and>
   (\<exists>rs t'. put_sale_status no_fault 1 1 ''pendente'' cancelled_db = Some (rs, t') \<and>
           inventory t' = inventory cancelled_db \<and>
           inventory_movements t' = inventory_movements cancelled_db \<and>
           (t' = cancelled_db \<or>
            t' = cancelled_db\<lparr>sales := update_sale_status ''pendente'' 1 (sales cancelled_db)\<rparr>) \<and>
           (valid_status ''pendente'' \<and> tolerated no_fault \<longrightarrow>
              rs = [Reply 200 StatusDaVendaAtualizadoComSucesso] \<and>
              t' = cancelled_db\<lparr>sales := update_sale_status ''pendente'' 1 (sales cancelled_db)\<rparr>))"
proof -
  have h1: "find (\<lambda>s. s_id s = 1) (sales cancelled_db) = Some (hd (sales cancelled_db))"
    by code_simp
  have h2: "s_status (hd (sales cancelled_db)) \<noteq> ''concluida''"
    by code_simp
  show ?thesis
    by (intro conjI h1 h2 status_update_of_other_sale_keeps_stock [OF h1 h2])
qed


text \<open>
  C7. A valid request to remove \<open>qty\<close> of a product whose inventory row holds less is
  rejected: the tables are unchanged, the answer is never the success message, and it is
  the 400 naming the quantity available unless the query of the stock itself fails. If the
  row holds enough, the handler ends in one of two ways: with the success message, every
  row of the product decremented by \<open>qty\<close> and one \<^verbatim>\<open>'saida'\<close> movement appended, or with
  a 500 and the tables unchanged; never with the decrement alone or the movement alone. If
  no statement fails it is the first.
\<close>

theorem stock_removal_checks_and_decrements:
  assumes "valid_adjustment qty reason"
    and "find (\<lambda>r. i_product_id r = pid) (inventory t) = Some row"
  shows "(i_quantity row < qty \<longrightarrow>
           (\<exists>rs. post_inventory_remove flt uid pid qty reason t = Some (rs, t) \<and>
              rs \<noteq> [Reply 200 EstoqueRemovidoComSucesso] \<and>
              (\<not> flt 0 (SelectInventory pid) \<longrightarrow>
                 rs = [Reply 400 (EstoqueInsuficiente (i_quantity row))]))) \<and>
         (qty \<le> i_quantity row \<longrightarrow>
           (\<exists>rs t'. post_inventory_remove flt uid pid qty reason t = Some (rs, t') \<and>
              (rs = [Reply 200 EstoqueRemovidoComSucesso] \<and>
               t' = t\<lparr>inventory := update_inventory_sub qty pid (inventory t),
                      inventory_movements :=
                        inventory_movements t @ [removal_row uid pid qty reason]\<rparr> \<and>
               find (\<lambda>r. i_product_id r = pid) (inventory t') =
                 Some (row\<lparr>i_quantity := i_quantity row - qty\<rparr>)
               \<or>
               (\<exists>b. rs = [Reply 500 b]) \<and> t' = t) \<and>
              ((\<forall>n s. \<not> flt n s) \<longrightarrow> rs = [Reply 200 EstoqueRemovidoComSucesso])))"
proof -
  note result = post_inventory_remove_result [OF assms(1), of flt uid pid t]
  have short: "i_quantity row < qty \<longrightarrow>
           (\<exists>rs. post_inventory_remove flt uid pid qty reason t = Some (rs, t) \<and>
              rs \<noteq> [Reply 200 EstoqueRemovidoComSucesso] \<and>
              (\<not> flt 0 (SelectInventory pid) \<longrightarrow>
                 rs = [Reply 400 (EstoqueInsuficiente (i_quantity row))]))"
    using result assms(2) by simp
  have enough: "qty \<le> i_quantity row \<longrightarrow>
           (\<exists>rs t'. post_inventory_remove flt uid pid qty reason t = Some (rs, t') \<and>
              (rs = [Reply 200 EstoqueRemovidoComSucesso] \<and>
               t' = t\<lparr>inventory := update_inventory_sub qty pid (inventory t),
                      inventory_movements :=
                        inventory_movements t @ [removal_row uid pid qty reason]\<rparr> \<and>
               find (\<lambda>r. i_product_id r = pid) (inventory t') =
                 Some (row\<lparr>i_quantity := i_quantity row - qty\<rparr>)
               \<or>
               (\<exists>b. rs = [Reply 500 b]) \<and> t' = t) \<and>
              ((\<forall>n s. \<not> flt n s) \<longrightarrow> rs = [Reply 200 EstoqueRemovidoComSucesso]))"
    using result assms(2) find_decremented_row [OF assms(2), of qty]
    by (auto simp: removal_row_def)
  show ?thesis
    using short enough by (rule conjI)
qed

theorem stock_removal_checks_and_decrements_witness:
  "valid_adjustment 40 ''quebra'' \<and>
   find (\<lambda>r. i_product_id r = 2) (inventory yard_db) = Some \<lparr>i_product_id = 2, i_quantity = 100\<rparr> \<and>
   post_inventory_remove no_fault 1 2 40 ''quebra'' yard_db =
     Some ([Reply 200 EstoqueRemovidoComSucesso],
           yard_db\<lparr>inventory := update_inventory_sub 40 2 (inventory yard_db),
                   inventory_movements :=
                     inventory_movements yard_db @ [removal_row 1 2 40 ''quebra'']\<rparr>) \<and>
   valid_adjustment 101 ''quebra'' \<and>
   post_inventory_remove no_fault 1 2 101 ''quebra'' yard_db =
     Some ([Reply 400 (EstoqueInsuficiente 100)], yard_db)"
proof -
  have h1: "valid_adjustment 40 ''quebra''"
    by code_simp
  have h1': "valid_adjustment 101 ''quebra''"
    by code_simp
  have h2: "find (\<lambda>r. i_product_id r = 2) (inventory yard_db) =
      Some \<lparr>i_product_id = 2, i_quantity = 100\<rparr>"
    by (simp add: yard_db_def)
  have nf: "\<forall>n s. \<not> no_fault n s"
    by (simp add: no_fault_def)
  from stock_removal_checks_and_decrements [OF h1 h2, of no_fault 1] nf
  have enough: "post_inventory_remove no_fault 1 2 40 ''quebra'' yard_db =
     Some ([Reply 200 EstoqueRemovidoComSucesso],
           yard_db\<lparr>inventory := update_inventory_sub 40 2 (inventory yard_db),
                   inventory_movements :=
                     inventory_movements yard_db @ [removal_row 1 2 40 ''quebra'']\<rparr>)"
    by auto
  from stock_removal_checks_and_decrements [OF h1' h2, of no_fault 1] nf
  have short: "post_inventory_remove no_fault 1 2 101 ''quebra'' yard_db =
     Some ([Reply 400 (EstoqueInsuficiente 100)], yard_db)"
    by auto
  show ?thesis
    using h1 h1' h2 enough short by simp
qed


text \<open>
  C8. The claim: every operation that changes the stock keeps every quantity at or above
  zero. The sale handler checks each line against the stock in the database, not against
  what the earlier lines of the same request take: with 100 boards in stock, a request with
  two lines of 60 boards passes both checks, is answered 201, and leaves the stock at -20.
\<close>

theorem sale_of_repeated_product_oversells:
  "list_all (\<lambda>r. 0 \<le> i_quantity r) (inventory yard_db) \<and>
   valid_sale_request oversell_request \<and>
   map_option fst (post_sales no_fault 1 oversell_request yard_db) =
     Some [Reply 201 (VendaCriadaComSucesso 1 3108 2)] \<and>
   map_option (map i_quantity \<circ> inventory \<circ> snd) (post_sales no_fault 1 oversell_request yard_db) =
     Some [- 20, 100]"
  by code_simp

text \<open>
  C9. Take any request that the handler answers with a 201, whatever statements fail on the
  way. The insert of the header names no status, so the row takes the default of the
  schema, \<^verbatim>\<open>'concluida'\<close>: the sale \<open>h\<close> that the database now holds is completed, not
  pending. A request to cancel it right away therefore takes the branch that restores the
  stock, and is answered with success.
\<close>

theorem new_sale_is_completed:
  assumes "post_sales flt uid req t = Some (rs, t')"
    and "Reply 201 b \<in> set rs"
  shows "\<exists>h. rs = [Reply 201 (VendaCriadaComSucesso (s_id h) (s_total_amount h)
                               (length (items req)))] \<and>
         sales t' = sales t @ [h] \<and>
         find (\<lambda>s. s_id s = s_id h) (sales t') = Some h \<and>
         s_status h = sales_status_default \<and> s_status h = ''concluida'' \<and>
         s_status h \<noteq> ''pendente'' \<and>
         put_sale_status no_fault uid' (s_id h) ''cancelada'' t' =
           Some ([Reply 200 StatusDaVendaAtualizadoComSucesso],
                 t'\<lparr>inventory := restored (items_of (s_id h) t') (inventory t'),
                    inventory_movements := inventory_movements t' @
                      map (restore_row uid' (s_id h)) (items_of (s_id h) t'),
                    sales := update_sale_status ''cancelada'' (s_id h) (sales t')\<rparr>)"
proof -
  let ?sid = "next_sale_id t"
  note valid = created_is_valid [OF assms]
  from valid post_sales_created [OF _ assms(1)]
  obtain ds where ds: "map (line_check t) (items req) = map Inr ds"
    and rs: "rs = [Reply 201 (VendaCriadaComSucesso ?sid
                        (sum_list (map d_total_price ds) - discount req + tax req) (length ds))]"
    and t': "t' = t\<lparr>sales := sales t @ [sale_header uid req t ds],
             sales_seq := ?sid,
             sale_items := sale_items t @ map (item_row ?sid) ds,
             inventory := sold ds (inventory t),
             inventory_movements := inventory_movements t @
               logged flt (3 * length ds + 2) uid ?sid ds\<rparr>"
    by blast
  have len: "length ds = length (items req)"
    using ds by (metis length_map)
  with valid have ne: "ds \<noteq> []"
    by (auto simp: valid_sale_request_def)
  let ?h = "sale_header uid req t ds"
  have id: "s_id ?h = ?sid"
    by (simp add: sale_header_def)
  have created: "rs = [Reply 201 (VendaCriadaComSucesso (s_id ?h) (s_total_amount ?h)
                                    (length (items req)))]"
    by (simp add: rs sale_header_def len)
  have appended: "sales t' = sales t @ [?h]"
    by (simp add: t')
  have found: "find (\<lambda>s. s_id s = s_id ?h) (sales t') = Some ?h"
    using find_new_sale [OF id] by (simp add: id t')
  have default: "s_status ?h = sales_status_default"
    by (simp add: sale_header_def)
  have status: "s_status ?h = ''concluida''"
    by (simp add: sale_header_def sales_status_default_def)
  have pending: "s_status ?h \<noteq> ''pendente''"
    by (simp add: status)
  have rows: "items_of (s_id ?h) t' \<noteq> []"
    using new_items_not_empty [OF ne] by (simp add: items_of_def id t')
  have cancel: "put_sale_status no_fault uid' (s_id ?h) ''cancelada'' t' =
           Some ([Reply 200 StatusDaVendaAtualizadoComSucesso],
                 t'\<lparr>inventory := restored (items_of (s_id ?h) t') (inventory t'),
                    inventory_movements := inventory_movements t' @
                      map (restore_row uid' (s_id ?h)) (items_of (s_id ?h) t'),
                    sales := update_sale_status ''cancelada'' (s_id ?h) (sales t')\<rparr>)"
    using put_sale_status_cancels [OF tolerated_no_fault found status rows, of uid']
    by simp
  show ?thesis
    by (rule exI [of _ ?h]) (intro conjI created appended found default status pending cancel)
qed

theorem new_sale_is_completed_witness:
  "post_sales no_fault 1 board_request yard_db =
     Some ([Reply 201 (VendaCriadaComSucesso 1 777 1)], sold_db) \<and>
   Reply 201 (VendaCriadaComSucesso 1 777 1) \<in> set [Reply 201 (VendaCriadaComSucesso 1 777 1)] \<and>
   (\<exists>h. [Reply 201 (VendaCriadaComSucesso 1 777 1)] =
           [Reply 201 (VendaCriadaComSucesso (s_id h) (s_total_amount h)
                         (length (items board_request)))] \<and>
         sales sold_db = sales yard_db @ [h] \<and>
         find (\<lambda>s. s_id s = s_id h) (sales sold_db) = Some h \<and>
         s_status h = sales_status_default \<and> s_status h = ''concluida'' \<and>
         s_status h \<noteq> ''pendente'' \<and>
         put_sale_status no_fault 2 (s_id h) ''cancelada'' sold_db =
           Some ([Reply 200 StatusDaVendaAtualizadoComSucesso],
                 sold_db\<lparr>inventory := restored (items_of (s_id h) sold_db) (inventory sold_db),
                    inventory_movements := inventory_movements sold_db @
                      map (restore_row 2 (s_id h)) (items_of (s_id h) sold_db),
                    sales := update_sale_status ''cancelada'' (s_id h) (sales sold_db)\<rparr>))"
proof -
  have h2: "Reply 201 (VendaCriadaComSucesso 1 777 1) \<in>
      set [Reply 201 (VendaCriadaComSucesso 1 777 1)]"
    by simp
  show ?thesis
    by (intro conjI boards_sold h2 new_sale_is_completed [OF boards_sold h2])
qed

text \<open>
  C10. A line for a product that exists and is active but has no inventory row does not
  pass: the stock read by the product query is \<^verbatim>\<open>NULL\<close>, which JavaScript compares as 0,
  and a valid quantity is at least 0.001. Whatever statements fail, the request ends with
  the tables unchanged and no 201. When no product query fails, the responses contain the
  insufficient-stock error of that line, with \<^verbatim>\<open>null\<close> as the stock available, and it is
  the only response when the request has this line alone.
\<close>

theorem product_without_inventory_row_is_rejected:
  assumes "valid_sale_request req"
    and "item \<in> set (items req)"
    and "find (\<lambda>p. p_id p = product_id item \<and> p_active p) (products t) = Some p"
    and "find (\<lambda>r. i_product_id r = product_id item) (inventory t) = None"
  shows "\<not> line_passes t item \<and>
         line_error t item = Reply 400 (EstoqueInsuficientePara (p_name p) None) \<and>
         (\<exists>rs. post_sales flt uid req t = Some (rs, t) \<and> rs \<noteq> [] \<and>
            (\<forall>b. Reply 201 b \<notin> set rs) \<and>
            ((\<forall>n pid. \<not> flt n (ProductQuery pid)) \<longrightarrow>
               Reply 400 (EstoqueInsuficientePara (p_name p) None) \<in> set rs \<and>
               (items req = [item] \<longrightarrow>
                  rs = [Reply 400 (EstoqueInsuficientePara (p_name p) None)])))"
proof -
  have positive: "0 < quantity item"
    using assms(1,2) by (auto simp: valid_sale_request_def list_all_iff)
  have query: "product_query (product_id item) t =
      Some \<lparr>pr_id = p_id p, pr_name = p_name p, pr_price = p_price p, pr_stock_quantity = None\<rparr>"
    using assms(3,4) by (simp add: product_query_def)
  have fails: "\<not> line_passes t item"
    using positive by (simp add: line_passes_def query js_less_def)
  have error: "line_error t item = Reply 400 (EstoqueInsuficientePara (p_name p) None)"
    by (simp add: line_error_def query)
  let ?rs = "rejected (line_results flt 1 t (items req))"
  have ne: "?rs \<noteq> []"
    using failing_line_rejected [OF assms(2) fails] .
  have ends: "post_sales flt uid req t = Some (?rs, t)"
    using post_sales_rejects [OF assms(1) ne] .
  have no201: "\<forall>b. Reply 201 b \<notin> set ?rs"
    using rejected_line_results [of _ flt 1 t "items req"] by fastforce
  have named: "(\<forall>n pid. \<not> flt n (ProductQuery pid)) \<longrightarrow>
               Reply 400 (EstoqueInsuficientePara (p_name p) None) \<in> set ?rs \<and>
               (items req = [item] \<longrightarrow>
                  ?rs = [Reply 400 (EstoqueInsuficientePara (p_name p) None)])"
  proof
    assume "\<forall>n pid. \<not> flt n (ProductQuery pid)"
    then have rs: "?rs = map (line_error t) (filter (\<lambda>i. \<not> line_passes t i) (items req))"
      by (simp add: line_results_checks rejected_checks)
    have "line_error t item \<in> set ?rs"
      unfolding rs using assms(2) fails by simp
    moreover have "items req = [item] \<longrightarrow> ?rs = [line_error t item]"
      unfolding rs using fails by simp
    ultimately show "Reply 400 (EstoqueInsuficientePara (p_name p) None) \<in> set ?rs \<and>
               (items req = [item] \<longrightarrow>
                  ?rs = [Reply 400 (EstoqueInsuficientePara (p_name p) None)])"
      by (simp only: error)
  qed
  show ?thesis
    apply (intro conjI fails error)
    apply (rule exI [of _ ?rs])
    apply (intro conjI ends ne no201 named)
    done
qed

theorem product_without_inventory_row_is_rejected_witness:
  "valid_sale_request unstocked_request \<and>
   \<lparr>product_id = 3, quantity = 1 / 1000\<rparr> \<in> set (items unstocked_request) \<and>
   find (\<lambda>p. p_id p = 3 \<and> p_active p) (products unstocked_db) =
     Some \<lparr>p_id = 3, p_name = ''MDF Cru 15mm'', p_price = 157 / 2, p_active = True\<rparr> \<and>
   find (\<lambda>r. i_product_id r = 3) (inventory unstocked_db) = None \<and>
   post_sales no_fault 1 unstocked_request unstocked_db =
     Some ([Reply 400 (EstoqueInsuficientePara ''MDF Cru 15mm'' None)], unstocked_db)"
proof -
  let ?item = "\<lparr>product_id = 3, quantity = 1 / 1000\<rparr>"
  let ?p = "\<lparr>p_id = 3, p_name = ''MDF Cru 15mm'', p_price = 157 / 2, p_active = True\<rparr>"
  have h1: "valid_sale_request unstocked_request"
    by code_simp
  have h2: "?item \<in> set (items unstocked_request)"
    by (simp add: unstocked_request_def)
  have h3: "find (\<lambda>p. p_id p = product_id ?item \<and> p_active p) (products unstocked_db) = Some ?p"
    by (simp add: unstocked_db_def yard_db_def)
  have h4: "find (\<lambda>r. i_product_id r = product_id ?item) (inventory unstocked_db) = None"
    by (simp add: unstocked_db_def yard_db_def)
  have nf: "\<forall>n pid. \<not> no_fault n (ProductQuery pid)"
    by (simp add: no_fault_def)
  have one: "items unstocked_request = [?item]"
    by (simp add: unstocked_request_def)
  from product_without_inventory_row_is_rejected [OF h1 h2 h3 h4, of no_fault 1] nf one
  have "post_sales no_fault 1 unstocked_request unstocked_db =
     Some ([Reply 400 (EstoqueInsuficientePara ''MDF Cru 15mm'' None)], unstocked_db)"
    by auto
  then show ?thesis
    using h1 h2 h3 h4 by simp
qed



end
